theory Spec2Isabelle
  imports Complex_Main "HOL-Library.Multiset" "HOL-Library.Sublist"
begin

section \<open>Analyzer chain (server.js)\<close>

text \<open>
  The two legacy endpoints of \<^verbatim>\<open>server.js\<close>, \<^verbatim>\<open>POST /upload\<close> and
  \<^verbatim>\<open>POST /analyze-github\<close>, try five analyzers in a fixed order through nested
  \<^verbatim>\<open>try/catch\<close> blocks. An analyzer call either returns a result or throws an error
  whose \<^verbatim>\<open>message\<close> is a string: its outcome is a value of \<open>string + 'r\<close>, \<open>Inl\<close> the
  message of the error thrown. The analyzers are distinct objects that share only the
  catalog, which none of them writes, so a call is a function of the project path and the
  scan result.

  \<^verbatim>\<open>console.log\<close> is the only place where the error of a failed analyzer goes, so the
  model threads the console as a list of lines (the emoji that start the lines in the
  source are left out).
\<close>

record ('p, 's, 'r) analyzers =
  replacementAnalyzer :: "'p \<Rightarrow> 's \<Rightarrow> string + 'r"
  deepAnalyzer :: "'p \<Rightarrow> 's \<Rightarrow> string + 'r"
  intelligentAnalyzer :: "'p \<Rightarrow> 's \<Rightarrow> string + 'r"
  enhancedAnalyzer :: "'p \<Rightarrow> 's \<Rightarrow> string + 'r"
  analyzer :: "'p \<Rightarrow> 's \<Rightarrow> string + 'r"

text \<open>
  Lines 165-197 of \<^verbatim>\<open>server.js\<close>: the value of the variable \<^verbatim>\<open>analysis\<close> after the
  nested blocks, or the error that leaves them. The innermost call, to the basic
  analyzer, is in a \<^verbatim>\<open>catch\<close> block and not in a \<^verbatim>\<open>try\<close>: what it throws leaves the
  chain.
\<close>

definition uploadChain ::
  "('p, 's, 'r) analyzers \<Rightarrow> 'p \<Rightarrow> 's \<Rightarrow> string list \<times> (string + 'r)" where
  "uploadChain A projectPath scanResult =
    (case replacementAnalyzer A projectPath scanResult of
       Inr analysis \<Rightarrow> ([''Using code replacement analysis''], Inr analysis)
     | Inl error \<Rightarrow>
        (case deepAnalyzer A projectPath scanResult of
           Inr analysis \<Rightarrow>
             ([''Advanced analyzer failed, trying deep: '' @ error,
               ''Using deep code analysis''], Inr analysis)
         | Inl error2 \<Rightarrow>
            (case intelligentAnalyzer A projectPath scanResult of
               Inr analysis \<Rightarrow>
                 ([''Advanced analyzer failed, trying deep: '' @ error,
                   ''Deep analyzer failed, trying intelligent: '' @ error2,
                   ''Using intelligent analysis''], Inr analysis)
             | Inl error3 \<Rightarrow>
                (case enhancedAnalyzer A projectPath scanResult of
                   Inr analysis \<Rightarrow>
                     ([''Advanced analyzer failed, trying deep: '' @ error,
                       ''Deep analyzer failed, trying intelligent: '' @ error2,
                       ''Intelligent analyzer failed, trying enhanced: '' @ error3,
                       ''Using enhanced analysis''], Inr analysis)
                 | Inl error4 \<Rightarrow>
                    (case analyzer A projectPath scanResult of
                       Inr analysis \<Rightarrow>
                         ([''Advanced analyzer failed, trying deep: '' @ error,
                           ''Deep analyzer failed, trying intelligent: '' @ error2,
                           ''Intelligent analyzer failed, trying enhanced: '' @ error3,
                           ''Enhanced analyzer failed, using basic: '' @ error4,
                           ''Using basic analysis''], Inr analysis)
                     | Inl err \<Rightarrow>
                         ([''Advanced analyzer failed, trying deep: '' @ error,
                           ''Deep analyzer failed, trying intelligent: '' @ error2,
                           ''Intelligent analyzer failed, trying enhanced: '' @ error3,
                           ''Enhanced analyzer failed, using basic: '' @ error4],
                          Inl err))))))"

text \<open>
  Lines 236-262: the chain of \<^verbatim>\<open>/analyze-github\<close>, the same calls in the same order
  with other console lines.
\<close>

definition githubChain ::
  "('p, 's, 'r) analyzers \<Rightarrow> 'p \<Rightarrow> 's \<Rightarrow> string list \<times> (string + 'r)" where
  "githubChain A projectPath scanResult =
    (case replacementAnalyzer A projectPath scanResult of
       Inr analysis \<Rightarrow> ([''Using code replacement analysis for GitHub''], Inr analysis)
     | Inl error \<Rightarrow>
        (case deepAnalyzer A projectPath scanResult of
           Inr analysis \<Rightarrow>
             ([''Replacement analyzer failed, trying deep: '' @ error,
               ''Using deep code analysis for GitHub''], Inr analysis)
         | Inl error2 \<Rightarrow>
            (case intelligentAnalyzer A projectPath scanResult of
               Inr analysis \<Rightarrow>
                 ([''Replacement analyzer failed, trying deep: '' @ error,
                   ''Deep analyzer failed, trying intelligent: '' @ error2,
                   ''Using intelligent analysis for GitHub''], Inr analysis)
             | Inl error3 \<Rightarrow>
                (case enhancedAnalyzer A projectPath scanResult of
                   Inr analysis \<Rightarrow>
                     ([''Replacement analyzer failed, trying deep: '' @ error,
                       ''Deep analyzer failed, trying intelligent: '' @ error2,
                       ''Intelligent analyzer failed, trying enhanced: '' @ error3,
                       ''Using enhanced analysis for GitHub''], Inr analysis)
                 | Inl error4 \<Rightarrow>
                    (case analyzer A projectPath scanResult of
                       Inr analysis \<Rightarrow>
                         ([''Replacement analyzer failed, trying deep: '' @ error,
                           ''Deep analyzer failed, trying intelligent: '' @ error2,
                           ''Intelligent analyzer failed, trying enhanced: '' @ error3,
                           ''Enhanced analyzer failed, using basic: '' @ error4,
                           ''Using basic analysis for GitHub''], Inr analysis)
                     | Inl err \<Rightarrow>
                         ([''Replacement analyzer failed, trying deep: '' @ error,
                           ''Deep analyzer failed, trying intelligent: '' @ error2,
                           ''Intelligent analyzer failed, trying enhanced: '' @ error3,
                           ''Enhanced analyzer failed, using basic: '' @ error4],
                          Inl err))))))"

text \<open>
  The response of \<^verbatim>\<open>/upload\<close> (lines 155-219). On success the body spreads the
  analysis between the fields \<^verbatim>\<open>success\<close>, \<^verbatim>\<open>source\<close>, \<^verbatim>\<open>analysisId\<close> and
  \<^verbatim>\<open>timestamp\<close>; on any error that reaches the outer \<^verbatim>\<open>catch\<close> the status is 500 and
  the body has the one field \<^verbatim>\<open>error: err.message\<close>. The extraction of the archive
  and the coarse scan come before the chain, inside the same outer \<^verbatim>\<open>try\<close>.
\<close>

datatype 'r response =
  Json200 (body_analysis: 'r)
| Json500 (body_error: string)

definition uploadRoute ::
  "(string + 'p) \<Rightarrow> ('p \<Rightarrow> string + 's) \<Rightarrow> ('p, 's, 'r) analyzers
     \<Rightarrow> string list \<times> 'r response" where
  "uploadRoute uploadHandler scanProject A =
    (case uploadHandler of
       Inl err \<Rightarrow> ([], Json500 err)
     | Inr projectPath \<Rightarrow>
        (case scanProject projectPath of
           Inl err \<Rightarrow> ([], Json500 err)
         | Inr scanResult \<Rightarrow>
            (case uploadChain A projectPath scanResult of
               (console, Inr analysis) \<Rightarrow> (console, Json200 analysis)
             | (console, Inl err) \<Rightarrow> (console, Json500 err))))"

text \<open>The errors a response carries: the \<^verbatim>\<open>error\<close> field of its body, if it has one.\<close>

fun surfacedErrors :: "'r response \<Rightarrow> string list" where
  "surfacedErrors (Json200 _) = []"
| "surfacedErrors (Json500 e) = [e]"

text \<open>Five analyzers that all throw, each with a message of its own.\<close>

definition allThrow :: "(unit, unit, nat) analyzers" where
  "allThrow = \<lparr> replacementAnalyzer = (\<lambda>_ _. Inl ''e1''),
                deepAnalyzer = (\<lambda>_ _. Inl ''e2''),
                intelligentAnalyzer = (\<lambda>_ _. Inl ''e3''),
                enhancedAnalyzer = (\<lambda>_ _. Inl ''e4''),
                analyzer = (\<lambda>_ _. Inl ''e5'') \<rparr>"

text \<open>The first analyzer throws, the second returns \<open>7\<close>, the others are never called.\<close>

definition secondSucceeds :: "(unit, unit, nat) analyzers" where
  "secondSucceeds = \<lparr> replacementAnalyzer = (\<lambda>_ _. Inl ''catalog entry missing''),
                deepAnalyzer = (\<lambda>_ _. Inr 7),
                intelligentAnalyzer = (\<lambda>_ _. Inr 8),
                enhancedAnalyzer = (\<lambda>_ _. Inr 9),
                analyzer = (\<lambda>_ _. Inr 10) \<rparr>"

section \<open>Strings and regular expressions of the JavaScript runtime\<close>

text \<open>
  Strings are lists of bytes. \<^verbatim>\<open>s.includes(t)\<close>, \<^verbatim>\<open>s.startsWith(t)\<close>,
  \<^verbatim>\<open>s.split('\n')\<close>, \<^verbatim>\<open>s.trim()\<close> and \<^verbatim>\<open>s.toLowerCase()\<close> are the methods the
  analyzers call. Case is folded on the 26 ASCII letters only.
\<close>

definition newline :: char where
  "newline = CHR 0x0A"

definition carriageReturn :: char where
  "carriageReturn = CHR 0x0D"

fun str_includes :: "string \<Rightarrow> string \<Rightarrow> bool" where
  "str_includes [] t = (t = [])"
| "str_includes (c # cs) t = (prefix t (c # cs) \<or> str_includes cs t)"

definition startsWith :: "string \<Rightarrow> string \<Rightarrow> bool" where
  "startsWith s t = prefix t s"

fun split_newline :: "string \<Rightarrow> string list" where
  "split_newline [] = [[]]"
| "split_newline (c # cs) =
     (if c = newline then [] # split_newline cs
      else (case split_newline cs of
              [] \<Rightarrow> [[c]]
            | l # ls \<Rightarrow> (c # l) # ls))"

definition isWhiteSpace :: "char \<Rightarrow> bool" where
  "isWhiteSpace c = (c \<in> set [CHR '' '', CHR 0x09, CHR 0x0A, CHR 0x0B, CHR 0x0C, CHR 0x0D])"

definition trim :: "string \<Rightarrow> string" where
  "trim s = rev (dropWhile isWhiteSpace (rev (dropWhile isWhiteSpace s)))"

definition lowerChar :: "char \<Rightarrow> char" where
  "lowerChar c =
     (case map_of (zip ''ABCDEFGHIJKLMNOPQRSTUVWXYZ'' ''abcdefghijklmnopqrstuvwxyz'') c of
        Some d \<Rightarrow> d
      | None \<Rightarrow> c)"

definition toLowerCase :: "string \<Rightarrow> string" where
  "toLowerCase s = map lowerChar s"

text \<open>
  The regular expressions of the analyzers are built from literals, \<^verbatim>\<open>.*\<close>,
  concatenation and alternation, all with the flag \<^verbatim>\<open>i\<close>. \<open>rx_run r s\<close> lists the
  rests of \<open>s\<close> after each way of matching \<open>r\<close> at its start, in the order in which
  the backtracking matcher of the runtime tries them: the left alternative first, and
  \<^verbatim>\<open>.*\<close> from the longest run of characters that are not line terminators down to the
  empty one. The literals of a pattern are written in lower case and the subject is
  folded before matching.
\<close>

datatype rx = Lit string | DotStar | Seq rx rx | Alt rx rx

fun rx_run :: "rx \<Rightarrow> string \<Rightarrow> string list" where
  "rx_run (Lit l) s = (if prefix l s then [drop (length l) s] else [])"
| "rx_run DotStar [] = [[]]"
| "rx_run DotStar (c # cs) =
     (if c = newline \<or> c = carriageReturn then [] else rx_run DotStar cs) @ [c # cs]"
| "rx_run (Seq a b) s = concat (map (rx_run b) (rx_run a s))"
| "rx_run (Alt a b) s = rx_run a s @ rx_run b s"

fun rx_search :: "rx \<Rightarrow> string \<Rightarrow> bool" where
  "rx_search r [] = (rx_run r [] \<noteq> [])"
| "rx_search r (c # cs) = (rx_run r (c # cs) \<noteq> [] \<or> rx_search r cs)"

text \<open>\<^verbatim>\<open>pattern.test(s)\<close> for a pattern without the flag \<^verbatim>\<open>g\<close>, or a fresh one.\<close>

definition rx_test :: "rx \<Rightarrow> string \<Rightarrow> bool" where
  "rx_test r s = rx_search r (toLowerCase s)"

text \<open>
  \<^verbatim>\<open>(s.match(pattern) || []).length\<close> for a pattern with the flag \<^verbatim>\<open>g\<close>: the number of
  matches found from left to right, each search starting where the match before it
  ended (one character further after an empty match). \<open>skip\<close> counts the characters
  still covered by the last match.
\<close>

fun rx_count_from :: "rx \<Rightarrow> nat \<Rightarrow> string \<Rightarrow> nat" where
  "rx_count_from r skip [] = (if skip = 0 \<and> rx_run r [] \<noteq> [] then 1 else 0)"
| "rx_count_from r skip (c # cs) =
     (if 0 < skip then rx_count_from r (skip - 1) cs
      else (case rx_run r (c # cs) of
              [] \<Rightarrow> rx_count_from r 0 cs
            | rest # _ \<Rightarrow> 1 + rx_count_from r (length cs - length rest) cs))"

definition rx_count :: "rx \<Rightarrow> string \<Rightarrow> nat" where
  "rx_count r s = rx_count_from r 0 (toLowerCase s)"

text \<open>\<open>anyOf r rs\<close> is the alternation \<^verbatim>\<open>r|r1|...|rn\<close>, \<open>lits\<close> one of literals.\<close>

fun anyOf :: "rx \<Rightarrow> rx list \<Rightarrow> rx" where
  "anyOf r [] = r"
| "anyOf r (x # xs) = Alt r (anyOf x xs)"

fun lits :: "string \<Rightarrow> string list \<Rightarrow> rx" where
  "lits l [] = Lit l"
| "lits l (x # xs) = Alt (Lit l) (lits x xs)"

text \<open>
  \<^verbatim>\<open>parseInt(s.match(/(\d+)/)[1])\<close>: the number written by the first run of decimal
  digits of \<open>s\<close>, \<open>None\<close> when \<open>s\<close> has no digit (the match is \<^verbatim>\<open>null\<close>).
\<close>

definition digitValue :: "char \<Rightarrow> nat option" where
  "digitValue c = map_of (zip ''0123456789'' [0, 1, 2, 3, 4, 5, 6, 7, 8, 9]) c"

definition isDigit :: "char \<Rightarrow> bool" where
  "isDigit c = (digitValue c \<noteq> None)"

definition firstNumber :: "string \<Rightarrow> nat option" where
  "firstNumber s =
     (case takeWhile isDigit (dropWhile (\<lambda>c. \<not> isDigit c) s) of
        [] \<Rightarrow> None
      | ds \<Rightarrow> Some (foldl (\<lambda>n c. 10 * n + the (digitValue c)) 0 ds))"

section \<open>The directory walk\<close>

text \<open>
  Every analyzer lists the project with a recursive walk (it is called
  \<^verbatim>\<open>getFileStructure\<close> or \<^verbatim>\<open>getAllFiles\<close>): \<^verbatim>\<open>readdirSync\<close> the directory, \<^verbatim>\<open>statSync\<close>
  each entry, record the files, descend into the directories whose name neither starts
  with a dot nor is \<^verbatim>\<open>node_modules\<close>. In every class but \<^verbatim>\<open>CodeAnalyzer\<close> the loop over one
  directory is inside a \<^verbatim>\<open>try\<close> whose \<^verbatim>\<open>catch\<close> is empty; the walk of \<^verbatim>\<open>CodeAnalyzer\<close>
  has no \<^verbatim>\<open>try\<close>.

  The file system is a graph of nodes. A directory entry has a name and the node that
  \<^verbatim>\<open>statSync\<close> reaches through it; \<^verbatim>\<open>statSync\<close> follows symbolic links, so for an entry
  that is a link this is the node the link points to. \<open>d_symlink\<close> tells whether the
  entry is a link; the source never asks (it never calls \<^verbatim>\<open>lstatSync\<close>), but the system
  does: the resolution of a path that passes through more than \<open>maxSymlinks\<close> links
  fails with \<^verbatim>\<open>ELOOP\<close> (40 is the bound of Linux; every entry that is a link counts as
  one). A node that is missing makes \<^verbatim>\<open>statSync\<close> throw \<^verbatim>\<open>ENOENT\<close>, a directory without a
  listing makes \<^verbatim>\<open>readdirSync\<close> throw \<^verbatim>\<open>EACCES\<close>.
\<close>

type_synonym inode = nat

record dirent =
  d_name :: string
  d_symlink :: bool
  d_target :: inode

datatype node = File nat | Dir "dirent list option" | Other

type_synonym fileSystem = "inode \<Rightarrow> node option"

record fileEntry =
  path :: string
  ext :: string

record fileRecord = fileEntry +
  size_bytes :: nat

text \<open>
  \<^verbatim>\<open>path.join\<close> on a directory and one more segment (\<^verbatim>\<open>.\<close>, \<^verbatim>\<open>..\<close> and other
  normalisation do not occur: \<^verbatim>\<open>readdirSync\<close> never returns them), \<^verbatim>\<open>path.extname\<close>,
  and \<^verbatim>\<open>s.replace(dir, '')\<close>, which removes the first occurrence of \<open>dir\<close>.
\<close>

definition path_join :: "string \<Rightarrow> string \<Rightarrow> string" where
  "path_join a b = (if startsWith b ''/'' then a @ b else a @ ''/'' @ b)"

definition extname :: "string \<Rightarrow> string" where
  "extname item =
     (let tail = rev (takeWhile (\<lambda>c. c \<noteq> CHR ''.'') (rev item))
      in if length tail = length item \<or> length tail + 1 = length item then []
         else CHR ''.'' # tail)"

fun removeFirst :: "string \<Rightarrow> string \<Rightarrow> string" where
  "removeFirst dir [] = []"
| "removeFirst dir (c # cs) =
     (if prefix dir (c # cs) then drop (length dir) (c # cs) else c # removeFirst dir cs)"

datatype fsError = ELOOP | ENOENT | EACCES | ENOTDIR

definition maxSymlinks :: nat where
  "maxSymlinks = 40"

definition linkCount :: "dirent \<Rightarrow> nat" where
  "linkCount item = (if d_symlink item then 1 else 0)"

text \<open>
  \<open>links\<close> is the number of links on the path of the directory that holds the entry.
\<close>

definition statSync :: "fileSystem \<Rightarrow> nat \<Rightarrow> dirent \<Rightarrow> fsError + node" where
  "statSync fs links item =
     (if maxSymlinks < links + linkCount item then Inl ELOOP
      else (case fs (d_target item) of
              None \<Rightarrow> Inl ENOENT
            | Some nd \<Rightarrow> Inr nd))"

definition readdirSync :: "fileSystem \<Rightarrow> inode \<Rightarrow> fsError + dirent list" where
  "readdirSync fs ino =
     (case fs ino of
        None \<Rightarrow> Inl ENOENT
      | Some (File sz) \<Rightarrow> Inl ENOTDIR
      | Some (Dir None) \<Rightarrow> Inl EACCES
      | Some (Dir (Some items)) \<Rightarrow> Inr items
      | Some Other \<Rightarrow> Inl ENOTDIR)"

text \<open>
  The recursion follows the graph, so it runs on fuel: \<open>None\<close> is a walk that has not
  returned. The state is the array \<^verbatim>\<open>files\<close> that the closure \<^verbatim>\<open>scan\<close> pushes to, with a
  second list that is not in the source: the entries through which \<^verbatim>\<open>scan\<close> was called
  again. A walk ends with its state and the exception that leaves it, if any.
  \<open>scanItems\<close> is the loop \<^verbatim>\<open>items.forEach\<close>: an exception of \<^verbatim>\<open>statSync\<close> or of a
  nested \<^verbatim>\<open>scan\<close> ends it and keeps what was pushed before. With \<open>catches\<close> the body
  of \<^verbatim>\<open>scan\<close> is inside \<^verbatim>\<open>try\<close> with an empty \<^verbatim>\<open>catch\<close>, which swallows the exception
  of \<^verbatim>\<open>readdirSync\<close> or of the loop; without, the exception leaves \<^verbatim>\<open>scan\<close>.
\<close>

type_synonym walkState = "fileRecord list \<times> dirent list"

fun scan ::
  "bool \<Rightarrow> nat \<Rightarrow> fileSystem \<Rightarrow> string \<Rightarrow> string \<Rightarrow> nat \<Rightarrow> inode \<Rightarrow> walkState
     \<Rightarrow> (walkState \<times> fsError option) option"
and scanItems ::
  "bool \<Rightarrow> nat \<Rightarrow> fileSystem \<Rightarrow> string \<Rightarrow> string \<Rightarrow> nat \<Rightarrow> dirent list \<Rightarrow> walkState
     \<Rightarrow> (walkState \<times> fsError option) option"
where
  "scan catches 0 fs dir currentDir links ino st = None"
| "scan catches (Suc n) fs dir currentDir links ino st =
     (case readdirSync fs ino of
        Inl e \<Rightarrow> Some (st, if catches then None else Some e)
      | Inr items \<Rightarrow>
          (case scanItems catches n fs dir currentDir links items st of
             None \<Rightarrow> None
           | Some (st', thrown) \<Rightarrow> Some (st', if catches then None else thrown)))"
| "scanItems catches n fs dir currentDir links [] st = Some (st, None)"
| "scanItems catches n fs dir currentDir links (item # rest) st =
     (let fullPath = path_join currentDir (d_name item) in
      case statSync fs links item of
        Inl e \<Rightarrow> Some (st, Some e)
      | Inr (File sz) \<Rightarrow>
          scanItems catches n fs dir currentDir links rest
            (fst st @ [\<lparr> path = removeFirst dir fullPath, ext = extname (d_name item),
                         size_bytes = sz \<rparr>], snd st)
      | Inr (Dir listing) \<Rightarrow>
          if \<not> startsWith (d_name item) ''.'' \<and> d_name item \<noteq> ''node_modules''
          then (case scan catches n fs dir fullPath (links + linkCount item) (d_target item)
                       (fst st, snd st @ [item]) of
                  None \<Rightarrow> None
                | Some (st', None) \<Rightarrow> scanItems catches n fs dir currentDir links rest st'
                | Some (st', Some e) \<Rightarrow> Some (st', Some e))
          else scanItems catches n fs dir currentDir links rest st
      | Inr Other \<Rightarrow> scanItems catches n fs dir currentDir links rest st)"

text \<open>
  \<^verbatim>\<open>getFileStructure(dir)\<close> of \<^verbatim>\<open>IntelligentCodeAnalyzer\<close> and of both classes
  \<^verbatim>\<open>EnhancedAnalyzer\<close>; \<^verbatim>\<open>getAllFiles(dir)\<close> of \<^verbatim>\<open>AdvancedCodeAnalyzer\<close>,
  \<^verbatim>\<open>DeepCodeAnalyzer\<close> and \<^verbatim>\<open>CodeReplacementAnalyzer\<close> is the same walk without the
  field \<^verbatim>\<open>size\<close> (\<open>size_bytes\<close> here). \<open>rootNode\<close> is the node of \<open>dir\<close>, whose path
  holds no link.
\<close>

definition getFileStructure :: "nat \<Rightarrow> fileSystem \<Rightarrow> string \<Rightarrow> inode \<Rightarrow> fileRecord list option" where
  "getFileStructure fuel fs dir rootNode =
     map_option (\<lambda>r. fst (fst r)) (scan True fuel fs dir dir 0 rootNode ([], []))"

definition getAllFiles :: "nat \<Rightarrow> fileSystem \<Rightarrow> string \<Rightarrow> inode \<Rightarrow> fileEntry list option" where
  "getAllFiles fuel fs dir rootNode =
     map_option (map fileEntry.truncate) (getFileStructure fuel fs dir rootNode)"



text \<open>
  The nodes that lie within the root: those reached from it through entries that are
  not symbolic links.
\<close>

inductive_set withinRoot :: "fileSystem \<Rightarrow> inode \<Rightarrow> inode set" for fs :: fileSystem and rootNode :: inode
where
  base: "rootNode \<in> withinRoot fs rootNode"
| step: "d \<in> withinRoot fs rootNode \<Longrightarrow> fs d = Some (Dir (Some items)) \<Longrightarrow> item \<in> set items
          \<Longrightarrow> \<not> d_symlink item \<Longrightarrow> d_target item \<in> withinRoot fs rootNode"







section \<open>The provider catalog and the exceptions\<close>

text \<open>
  \<^verbatim>\<open>data/comprehensive-api-database.json\<close> is loaded by every analyzer and is not part
  of the sources at hand: the catalog is a parameter of the model. Its entries have the
  string fields the analyzers read (\<open>entry_category\<close> is the field \<^verbatim>\<open>category\<close> of an
  entry); a section of the catalog is a list of entries.
\<close>

record catalogEntry =
  name :: string
  company :: string
  url :: string
  description :: string
  pricing :: string
  business_impact :: string
  implementation_time :: string
  complexity :: string
  roi :: string
  use_cases :: "string list"
  entry_category :: string

record apiDatabase =
  payments :: "catalogEntry list"
  authentication :: "catalogEntry list"
  analytics :: "catalogEntry list"
  communication :: "catalogEntry list"
  search :: "catalogEntry list"
  media_storage :: "catalogEntry list"
  monitoring :: "catalogEntry list"
  ai_ml :: "catalogEntry list"

text \<open>
  What an analyzer can throw: a \<^verbatim>\<open>TypeError\<close> for a property read on \<^verbatim>\<open>undefined\<close>,
  the error of \<^verbatim>\<open>fs.readFileSync\<close>, which carries the path, and the \<^verbatim>\<open>SyntaxError\<close>
  of \<^verbatim>\<open>JSON.parse\<close>.
\<close>

datatype error = TypeError | ReadError string | SyntaxError

text \<open>
  The fields every finding has (\<open>finding_id\<close> is the field \<^verbatim>\<open>id\<close>). Numbers are
  rationals: the values that occur are small integers and decimal fractions with one or
  two digits.
\<close>

record rated =
  category :: string
  impact :: rat
  effort :: rat

record 'p finding = rated +
  finding_id :: string
  providers :: "'p list"

record ('a, 's) analysisResult =
  analysis :: 'a
  suggestions :: "'s list"

section \<open>CodeReplacementAnalyzer (code-replacement-analyzer.js)\<close>

text \<open>
  \<^verbatim>\<open>buildCodePatterns\<close>: seven categories in the order of the object literal, each
  with its patterns and its section of the catalog. The Swedish texts are written without
  diacritics. Field names that several objects of the source share carry a prefix here
  (\<open>file_path\<close> for \<^verbatim>\<open>file\<close>, \<open>p_\<close> for a pattern, \<open>cfg_\<close> for the configuration of a category, \<open>cb_\<close> for the
  codebase, \<open>opp_\<close> for an opportunity, \<open>pv_\<close> for a recommended provider).
\<close>

record codePattern =
  code :: rx
  p_current :: string
  p_weakness :: string

record categoryConfig =
  cfg_patterns :: "codePattern list"
  cfg_recommendations :: "catalogEntry list"

text \<open>\<open>wild l ls\<close> is the pattern \<^verbatim>\<open>l.*l1.*...ln\<close>.\<close>

fun wild :: "string \<Rightarrow> string list \<Rightarrow> rx" where
  "wild l [] = Lit l"
| "wild l (x # xs) = Seq (Lit l) (Seq DotStar (wild x xs))"

definition buildCodePatterns :: "apiDatabase \<Rightarrow> (string \<times> categoryConfig) list" where
  "buildCodePatterns db =
    [(''payments'', \<lparr> cfg_patterns =
        [\<lparr> code = lits ''paypal'' [''braintree''], p_current = ''PayPal/Braintree'',
            p_weakness = ''Begransade funktioner'' \<rparr>,
         \<lparr> code = Lit ''square'', p_current = ''Square'',
            p_weakness = ''Framst for fysiska butiker'' \<rparr>,
         \<lparr> code = Alt (wild ''manual'' [''payment'']) (wild ''bank'' [''transfer'']),
            p_current = ''Manuella betalningar'', p_weakness = ''Ingen automation'' \<rparr>],
        cfg_recommendations = payments db \<rparr>),
     (''auth'', \<lparr> cfg_patterns =
        [\<lparr> code = anyOf (Lit ''passport'') [Lit ''session'', wild ''cookie'' [''auth'']],
            p_current = ''Egen auth-implementation'',
            p_weakness = ''Sakerhetsrisker, underhallskravande'' \<rparr>,
         \<lparr> code = Alt (wild ''jwt'' [''sign'']) (Lit ''jsonwebtoken''),
            p_current = ''Egen JWT-hantering'', p_weakness = ''Komplex sakerhetshantering'' \<rparr>,
         \<lparr> code = Alt (Lit ''bcrypt'') (wild ''password'' [''hash'']),
            p_current = ''Egen losenordshantering'', p_weakness = ''Sakerhetsrisker'' \<rparr>],
        cfg_recommendations = authentication db \<rparr>),
     (''analytics'', \<lparr> cfg_patterns =
        [\<lparr> code = Lit ''console.log'', p_current = ''Console.log for debugging'',
            p_weakness = ''Ingen strukturerad analys eller insikter'' \<rparr>,
         \<lparr> code = wild ''google'' [''analytics'', ''gtag''], p_current = ''Grundlaggande GA'',
            p_weakness = ''Begransad produktanalys'' \<rparr>,
         \<lparr> code = wild ''manual'' [''analytics''], p_current = ''Manuell dataanalys'',
            p_weakness = ''Tidskravande, felbenaget'' \<rparr>,
         \<lparr> code = lits ''error'' [''catch'', ''throw''],
            p_current = ''Grundlaggande felhantering'',
            p_weakness = ''Ingen centraliserad felsparning'' \<rparr>],
        cfg_recommendations = analytics db \<rparr>),
     (''communication'', \<lparr> cfg_patterns =
        [\<lparr> code = lits ''nodemailer'' [''smtp''], p_current = ''Egen e-postserver'',
            p_weakness = ''Leveransproblem, spam-risk'' \<rparr>,
         \<lparr> code = Alt (wild ''manual'' [''email'']) (wild ''alert'' [''email'']),
            p_current = ''Manuella e-postnotiser'', p_weakness = ''Ingen automation'' \<rparr>,
         \<lparr> code = wild ''console'' [''log'', ''notification''],
            p_current = ''Ingen riktig kommunikation'',
            p_weakness = ''Anvandare far ingen feedback'' \<rparr>],
        cfg_recommendations = communication db \<rparr>),
     (''search'', \<lparr> cfg_patterns =
        [\<lparr> code = anyOf (Lit ''indexof'') [wild ''includes'' [''search''],
                                           wild ''filter'' [''search'']],
            p_current = ''Grundlaggande JavaScript-sokning'',
            p_weakness = ''Langsam, ingen relevans-ranking'' \<rparr>,
         \<lparr> code = Alt (wild ''sql'' [''like'']) (wild ''database'' [''search'']),
            p_current = ''Databassokning med LIKE'',
            p_weakness = ''Langsam, ingen fuzzy matching'' \<rparr>,
         \<lparr> code = wild ''manual'' [''search''], p_current = ''Ingen sokfunktion'',
            p_weakness = ''Dalig anvandarupplevelse'' \<rparr>],
        cfg_recommendations = search db \<rparr>),
     (''media'', \<lparr> cfg_patterns =
        [\<lparr> code = Alt (Lit ''multer'') (wild ''file'' [''upload'', ''local'']),
            p_current = ''Lokal fillagring'',
            p_weakness = ''Skalbarhetsproblem, ingen CDN'' \<rparr>,
         \<lparr> code = Alt (Lit ''fs.writefile'') (wild ''local'' [''storage'']),
            p_current = ''Filsystem-lagring'',
            p_weakness = ''Ingen backup, langsam leverans'' \<rparr>,
         \<lparr> code = wild ''base64'' [''image''], p_current = ''Base64-bilder i databas'',
            p_weakness = ''Stor databasbelastning'' \<rparr>],
        cfg_recommendations = media_storage db \<rparr>),
     (''monitoring'', \<lparr> cfg_patterns =
        [\<lparr> code = Alt (wild ''console.log'' [''error'']) (wild ''try'' [''catch'', ''console'']),
            p_current = ''Console.log for felhantering'',
            p_weakness = ''Ingen strukturerad felsparning'' \<rparr>,
         \<lparr> code = wild ''manual'' [''monitoring''], p_current = ''Manuell overvakning'',
            p_weakness = ''Reaktiv istallet for proaktiv'' \<rparr>,
         \<lparr> code = wild ''no'' [''monitoring''], p_current = ''Ingen overvakning'',
            p_weakness = ''Vet inte nar system gar ner'' \<rparr>,
         \<lparr> code = lits ''function'' [''const'', ''let'', ''var'', ''=>''],
            p_current = ''Grundlaggande kod utan overvakning'',
            p_weakness = ''Ingen felsparning eller prestandaovervakning'' \<rparr>],
        cfg_recommendations = monitoring db \<rparr>)]"

definition replacement_isCodeFile :: "string \<Rightarrow> bool" where
  "replacement_isCodeFile e =
     (e \<in> set [''.js'', ''.ts'', ''.jsx'', ''.tsx'', ''.py'', ''.java'', ''.php''])"

record affectedFile =
  file_path :: string
  lineNumber :: nat
  codeSnippet :: string

record matchData = affectedFile +
  current :: string
  weakness :: string

record codebase =
  cb_files :: "fileEntry list"
  cb_patterns :: "(string \<times> matchData list) list"

text \<open>
  \<^verbatim>\<open>extractCodeSnippet\<close>: the first line on which the pattern matches, trimmed, with its
  number counted from 1; the empty string and 0 when no line matches.
\<close>

fun firstMatchingLine :: "rx \<Rightarrow> string list \<Rightarrow> nat \<Rightarrow> string \<times> nat" where
  "firstMatchingLine pattern [] index = ([], 0)"
| "firstMatchingLine pattern (line # lines) index =
     (if rx_test pattern line then (trim line, index + 1)
      else firstMatchingLine pattern lines (index + 1))"

definition extractCodeSnippet :: "string \<Rightarrow> rx \<Rightarrow> string \<times> nat" where
  "extractCodeSnippet content pattern = firstMatchingLine pattern (split_newline content) 0"

text \<open>
  \<^verbatim>\<open>codebase.patterns\<close> is a \<^verbatim>\<open>Map\<close> from a category to the array of its matches;
  a \<^verbatim>\<open>Map\<close> iterates in the order in which its keys were first set. \<open>pushMatch\<close> is
  \<^verbatim>\<open>if (!has(category)) set(category, []); get(category).push(matchData)\<close>.
\<close>

fun pushMatch :: "string \<Rightarrow> matchData \<Rightarrow> (string \<times> matchData list) list
                    \<Rightarrow> (string \<times> matchData list) list" where
  "pushMatch k v [] = [(k, [v])]"
| "pushMatch k v ((k', vs) # m) =
     (if k = k' then (k', vs @ [v]) # m else (k', vs) # pushMatch k v m)"

definition scanPattern :: "string \<Rightarrow> string \<Rightarrow> string \<Rightarrow> (string \<times> matchData list) list
                              \<Rightarrow> codePattern \<Rightarrow> (string \<times> matchData list) list" where
  "scanPattern filePath content cat m pattern =
     (if rx_test (code pattern) content
      then (let snippet = extractCodeSnippet content (code pattern)
            in pushMatch cat \<lparr> file_path = filePath, lineNumber = snd snippet,
                                 codeSnippet = fst snippet, current = p_current pattern,
                                 weakness = p_weakness pattern \<rparr> m)
      else m)"

definition scanFile :: "(string \<times> categoryConfig) list \<Rightarrow> string \<Rightarrow> string
                          \<Rightarrow> (string \<times> matchData list) list \<Rightarrow> (string \<times> matchData list) list" where
  "scanFile codePatterns filePath content m =
     foldl (\<lambda>m (cat, config). foldl (scanPattern filePath content cat) m (cfg_patterns config))
       m codePatterns"

text \<open>
  \<^verbatim>\<open>scanCodebase\<close>, on the list the walk returned. \<open>readFileSync p\<close> is the content of
  the file at \<open>p\<close>, \<open>None\<close> when the read throws; the \<^verbatim>\<open>catch\<close> of the loop logs the
  error and goes on with the next file. \<open>scanStep\<close> is the body of the loop.
\<close>

definition scanStep :: "(string \<times> categoryConfig) list \<Rightarrow> (string \<Rightarrow> string option) \<Rightarrow> string
    \<Rightarrow> (string \<times> matchData list) list \<Rightarrow> fileEntry \<Rightarrow> (string \<times> matchData list) list" where
  "scanStep codePatterns readFileSync projectPath m f =
     (if replacement_isCodeFile (ext f)
      then (case readFileSync (path_join projectPath (path f)) of
              None \<Rightarrow> m
            | Some content \<Rightarrow> scanFile codePatterns (path f) content m)
      else m)"

definition scanCodebase :: "(string \<times> categoryConfig) list \<Rightarrow> (string \<Rightarrow> string option)
                              \<Rightarrow> string \<Rightarrow> fileEntry list \<Rightarrow> codebase" where
  "scanCodebase codePatterns readFileSync projectPath allFiles =
     \<lparr> cb_files = allFiles,
       cb_patterns = foldl (scanStep codePatterns readFileSync projectPath) [] allFiles \<rparr>"

text \<open>
  A provider attached to a finding is an object with some of the fields of a catalog
  entry under camel-case names; which of them it has depends on the analyzer, so the
  fields that are not always there are optional.
\<close>

record provider =
  pv_name :: string
  pv_company :: "string option"
  pv_url :: "string option"
  pv_description :: string
  pv_pricing :: string
  businessImpact :: "string option"
  implementationTime :: "string option"
  pv_complexity :: "string option"
  pv_roi :: "string option"
  whyBetter :: "string option"

record opportunity = rated +
  currentSolution :: string
  opp_weakness :: string
  opp_affectedFiles :: "affectedFile list"
  codeExamples :: "string list"
  recommendations :: "provider list"

definition scoreRecommendation :: "catalogEntry \<Rightarrow> rat" where
  "scoreRecommendation rec =
     (if str_includes (business_impact rec) ''50%'' then 5 else 0)
     + (if str_includes (business_impact rec) ''30%'' then 3 else 0)
     + (if str_includes (business_impact rec) ''25%'' then 2 else 0)
     + (if complexity rec = ''low'' \<or> complexity rec = ''very_low'' then 3 else 0)
     + (if complexity rec = ''medium'' then 1 else 0)
     + (case firstNumber (roi rec) of
          None \<Rightarrow> 0
        | Some n \<Rightarrow> min (of_nat n / 100) 5)"

text \<open>
  \<^verbatim>\<open>selectBestRecommendations\<close>. \<^verbatim>\<open>Array.prototype.sort\<close> is stable, and the comparison
  \<^verbatim>\<open>b.score - a.score\<close> orders by falling score: this is \<open>sort_key\<close> on the negated score.
  \<open>currentMatch\<close> is \<^verbatim>\<open>matches[0]\<close>, which the caller has.
\<close>

definition selectBestRecommendations :: "catalogEntry list \<Rightarrow> matchData \<Rightarrow> provider list" where
  "selectBestRecommendations recs currentMatch =
     map (\<lambda>(rec, score).
            \<lparr> pv_name = name rec, pv_company = Some (company rec), pv_url = None,
              pv_description = description rec, pv_pricing = pricing rec,
              businessImpact = Some (business_impact rec),
              implementationTime = Some (implementation_time rec),
              pv_complexity = Some (complexity rec), pv_roi = Some (roi rec),
              whyBetter = Some (''Loser: '' @ weakness currentMatch) \<rparr>)
       (take 3 (sort_key (\<lambda>(rec, score). - score)
                  (map (\<lambda>rec. (rec, scoreRecommendation rec)) recs)))"

definition calculateCategoryImpact :: "string \<Rightarrow> nat \<Rightarrow> rat" where
  "calculateCategoryImpact cat fileCount =
     of_nat (min 10
       ((case map_of [(''payments'', 9), (''auth'', 8), (''monitoring'', 7),
                      (''communication'', 6), (''analytics'', 5), (''search'', 4),
                      (''media'', 3)] cat of
           Some b \<Rightarrow> b
         | None \<Rightarrow> 3) + fileCount div 2))"

definition estimateReplacementEffort :: "string \<Rightarrow> nat \<Rightarrow> rat" where
  "estimateReplacementEffort cat fileCount =
     of_nat (min 10
       ((case map_of [(''payments'', 6), (''auth'', 5), (''monitoring'', 3),
                      (''communication'', 2), (''analytics'', 2), (''search'', 4),
                      (''media'', 3)] cat of
           Some b \<Rightarrow> b
         | None \<Rightarrow> 3) + fileCount div 3))"

text \<open>
  \<^verbatim>\<open>findReplacementOpportunities\<close>: one opportunity for each category of the map, in
  the order of the map. \<^verbatim>\<open>this.codePatterns[category]\<close> is \<^verbatim>\<open>undefined\<close> for a key
  that is not a category, and reading \<^verbatim>\<open>.recommendations\<close> of it throws.
\<close>

fun findReplacementOpportunities ::
  "(string \<times> categoryConfig) list \<Rightarrow> (string \<times> matchData list) list
     \<Rightarrow> error + opportunity list" where
  "findReplacementOpportunities codePatterns [] = Inr []"
| "findReplacementOpportunities codePatterns ((cat, matches) # rest) =
     (case matches of
        [] \<Rightarrow> findReplacementOpportunities codePatterns rest
      | m0 # _ \<Rightarrow>
         (case map_of codePatterns cat of
            None \<Rightarrow> Inl TypeError
          | Some categoryConfig \<Rightarrow>
             (case findReplacementOpportunities codePatterns rest of
                Inl e \<Rightarrow> Inl e
              | Inr opportunities \<Rightarrow>
                 Inr (\<lparr> category = cat,
                        impact = calculateCategoryImpact cat (length matches),
                        effort = estimateReplacementEffort cat (length matches),
                        currentSolution = current m0,
                        opp_weakness = weakness m0,
                        opp_affectedFiles =
                          map (\<lambda>m. \<lparr> file_path = file_path m, lineNumber = lineNumber m,
                                       codeSnippet = codeSnippet m \<rparr>) matches,
                        codeExamples = take 2 (map codeSnippet matches),
                        recommendations =
                          selectBestRecommendations (cfg_recommendations categoryConfig) m0 \<rparr>
                      # opportunities))))"

text \<open>
  \<^verbatim>\<open>prioritizeRecommendations\<close> sorts by falling \<^verbatim>\<open>impact * 10 - effort\<close> and builds a
  suggestion from each opportunity. The texts of a suggestion (\<^verbatim>\<open>title\<close>,
  \<^verbatim>\<open>currentSituation\<close>, \<^verbatim>\<open>afterImprovement\<close>, \<^verbatim>\<open>whyRecommended\<close>) are not modelled,
  but the exception of their construction is: they read \<^verbatim>\<open>opp.recommendations[0].name\<close>,
  which throws when the opportunity has no recommendation.
\<close>

record suggestion = "provider finding" +
  priority :: nat
  affectedFiles :: "affectedFile list"

fun toSuggestions :: "nat \<Rightarrow> opportunity list \<Rightarrow> error + suggestion list" where
  "toSuggestions index [] = Inr []"
| "toSuggestions index (opp # opps) =
     (case recommendations opp of
        [] \<Rightarrow> Inl TypeError
      | topProvider # _ \<Rightarrow>
         (case toSuggestions (index + 1) opps of
            Inl e \<Rightarrow> Inl e
          | Inr rest \<Rightarrow>
             Inr (\<lparr> category = category opp, impact = impact opp, effort = effort opp,
                    finding_id = ''replacement_'' @ category opp,
                    providers = recommendations opp,
                    priority = index + 1,
                    affectedFiles = opp_affectedFiles opp \<rparr> # rest)))"

definition prioritizeRecommendations :: "opportunity list \<Rightarrow> error + suggestion list" where
  "prioritizeRecommendations opportunities =
     toSuggestions 0 (sort_key (\<lambda>opp. - (impact opp * 10 - effort opp)) opportunities)"

record replacementAnalysis =
  replacementOpportunities :: nat
  files :: "fileEntry list"

text \<open>
  \<^verbatim>\<open>analyzeCodeForReplacements\<close>; the fields of \<^verbatim>\<open>scanResult\<close> that are copied into
  \<^verbatim>\<open>analysis\<close>, \<^verbatim>\<open>currentImplementations\<close> and \<^verbatim>\<open>businessImpact\<close> are left out (they
  are computed with optional chaining and cannot throw).
\<close>

definition analyzeCodeForReplacements ::
  "apiDatabase \<Rightarrow> (string \<Rightarrow> string option) \<Rightarrow> string \<Rightarrow> fileEntry list
     \<Rightarrow> error + (replacementAnalysis, suggestion) analysisResult" where
  "analyzeCodeForReplacements db readFileSync projectPath allFiles =
     (let codePatterns = buildCodePatterns db;
          cb = scanCodebase codePatterns readFileSync projectPath allFiles
      in case findReplacementOpportunities codePatterns (cb_patterns cb) of
           Inl e \<Rightarrow> Inl e
         | Inr replacements \<Rightarrow>
            (case prioritizeRecommendations replacements of
               Inl e \<Rightarrow> Inl e
             | Inr prioritizedRecommendations \<Rightarrow>
                Inr \<lparr> analysis = \<lparr> replacementOpportunities = length replacements,
                                    files = cb_files cb \<rparr>,
                      suggestions = prioritizedRecommendations \<rparr>))"

section \<open>EnhancedAnalyzer (enhanced-analyzer-simple.js)\<close>

text \<open>
  The analyzer that \<^verbatim>\<open>server.js\<close> loads as \<^verbatim>\<open>./enhanced-analyzer-simple\<close>. The
  project is given by the list of the walk, the outcome of \<^verbatim>\<open>readFileSync\<close> for each
  path, and \<^verbatim>\<open>package.json\<close>: absent, not parseable (\<^verbatim>\<open>JSON.parse\<close> throws), or its
  dependency names and its description.
\<close>

datatype packageJson =
  NoPackageJson
| BadPackageJson
| PackageJson (dependencies: "string list") (pkg_description: string)

record enhancedPatterns =
  hasProductCatalog :: bool
  hasShoppingCart :: bool
  hasCheckout :: bool
  hasDatabase :: bool
  hasDataManagement :: bool
  hasReporting :: bool
  hasUserManagement :: bool
  hasFileManagement :: bool
  hasWorkflow :: bool
  hasAPI :: bool
  hasAuth :: bool
  hasLogging :: bool
  hasValidation :: bool
  hasCaching :: bool
  hasBackup :: bool
  hasPublicWebsite :: bool
  hasCustomerFacing :: bool
  hasChatbot :: bool
  hasAnalytics :: bool
  hasSearch :: bool
  hasRecommendations :: bool

definition noPatterns :: enhancedPatterns where
  "noPatterns = \<lparr> hasProductCatalog = False, hasShoppingCart = False, hasCheckout = False,
     hasDatabase = False, hasDataManagement = False, hasReporting = False,
     hasUserManagement = False, hasFileManagement = False, hasWorkflow = False,
     hasAPI = False, hasAuth = False, hasLogging = False, hasValidation = False,
     hasCaching = False, hasBackup = False, hasPublicWebsite = False,
     hasCustomerFacing = False, hasChatbot = False, hasAnalytics = False,
     hasSearch = False, hasRecommendations = False \<rparr>"

text \<open>
  The contents the loops of \<^verbatim>\<open>detectAdvancedPatterns\<close> and \<^verbatim>\<open>inferBusinessContext\<close>
  read: the files with one of the extensions \<open>exts\<close> whose read does not throw (the
  \<^verbatim>\<open>catch\<close> inside the loop skips the others).
\<close>

definition readableContents ::
  "string list \<Rightarrow> (string \<Rightarrow> string option) \<Rightarrow> string \<Rightarrow> fileRecord list \<Rightarrow> string list" where
  "readableContents exts readFileSync projectPath allFiles =
     concat (map (\<lambda>f. if ext f \<in> set exts
                         then (case readFileSync (path_join projectPath (path f)) of
                                 None \<Rightarrow> []
                               | Some content \<Rightarrow> [content])
                         else [])
               allFiles)"

definition detectAdvancedPatterns ::
  "(string \<Rightarrow> string option) \<Rightarrow> string \<Rightarrow> fileRecord list \<Rightarrow> enhancedPatterns" where
  "detectAdvancedPatterns readFileSync projectPath allFiles =
     (let contents = readableContents [''.js'', ''.ts'', ''.py'', ''.java''] readFileSync
                       projectPath allFiles;
          some = (\<lambda>r. \<exists>content\<in>set contents. rx_test r content);
          codeContent = concat (map (\<lambda>content. content @ '' '') contents);
          publicKeywords = rx_count (lits ''customer'' [''client'', ''public'', ''website'',
                                                         ''shop'', ''buy'', ''sell'']) codeContent;
          internalKeywords = rx_count (lits ''employee'' [''staff'', ''internal'', ''admin'',
                                                           ''management'', ''inventory'']) codeContent
      in noPatterns
          \<lparr> hasDatabase := some (lits ''database'' [''db.'', ''sql'', ''mysql'', ''postgres'',
                                                      ''mongodb'', ''sqlite'']),
            hasDataManagement := some (lits ''crud'' [''create'', ''update'', ''delete'', ''insert'',
                                                      ''select'', ''query'']),
            hasReporting := some (lits ''employee'' [''staff'', ''internal'', ''admin'',
                                                     ''management'', ''inventory'', ''report'']),
            hasFileManagement := some (lits ''upload'' [''download'', ''file'', ''document'',
                                                        ''storage'']),
            hasUserManagement := some (lits ''user'' [''login'', ''auth'', ''permission'', ''role'']),
            hasAPI := some (anyOf (Seq (Lit ''app.'') (lits ''get'' [''post'', ''put'', ''delete'']))
                              [Lit ''router.'', Lit ''api'', Lit ''endpoint'']),
            hasPublicWebsite := some (lits ''customer'' [''client'', ''public'', ''website'',
                                                         ''landing'', ''home'']),
            hasProductCatalog := some (lits ''product'' [''cart'', ''checkout'', ''payment'',
                                                         ''order'']),
            hasLogging := some (lits ''log'' [''console.'', ''winston'', ''bunyan'']),
            hasValidation := some (lits ''validate'' [''joi'', ''yup'', ''schema'']),
            hasCaching := some (lits ''cache'' [''redis'', ''memcached'']),
            hasCustomerFacing := (internalKeywords < publicKeywords) \<rparr>)"

record businessContext =
  context_type :: string
  audience :: string
  purpose :: string
  scale :: string
  industry :: string

definition defaultContext :: businessContext where
  "defaultContext = \<lparr> context_type = ''internal_tool'', audience = ''internal'',
     purpose = ''data_management'', scale = ''small'', industry = ''general'' \<rparr>"

text \<open>
  \<^verbatim>\<open>inferBusinessContext\<close>. Without a \<^verbatim>\<open>package.json\<close> nothing is read and the context
  stays the initial one; an exception of \<^verbatim>\<open>JSON.parse\<close> is caught by the outer
  \<^verbatim>\<open>catch\<close> before any field is written. \<open>length\<close> counts bytes where the source counts
  UTF-16 units; the two agree on ASCII text.
\<close>

definition inferBusinessContext ::
  "(string \<Rightarrow> string option) \<Rightarrow> string \<Rightarrow> fileRecord list \<Rightarrow> packageJson \<Rightarrow> businessContext" where
  "inferBusinessContext readFileSync projectPath allFiles pkg =
     (case pkg of
        NoPackageJson \<Rightarrow> defaultContext
      | BadPackageJson \<Rightarrow> defaultContext
      | PackageJson deps descr \<Rightarrow>
         (let description = toLowerCase descr;
              allContent = concat (map (\<lambda>content. content @ '' '')
                             (readableContents [''.js'', ''.ts'', ''.py''] readFileSync
                                projectPath allFiles));
              ecommerceKeywords = rx_count (lits ''shop'' [''cart'', ''product'', ''payment'',
                                    ''order'', ''customer'', ''buy'', ''sell'']) allContent;
              internalKeywords = rx_count (lits ''employee'' [''staff'', ''admin'', ''internal'',
                                    ''management'', ''inventory'', ''report'', ''database''])
                                    allContent;
              publicKeywords = rx_count (lits ''public'' [''website'', ''landing'', ''home'',
                                    ''visitor'', ''guest'']) allContent;
              dataKeywords = rx_count (lits ''database'' [''crud'', ''query'', ''table'',
                                    ''record'', ''data'', ''storage'']) allContent;
              typed =
                (if 5 < ecommerceKeywords \<and> (\<exists>d\<in>set deps. str_includes d ''stripe'')
                 then defaultContext \<lparr> context_type := ''ecommerce'', audience := ''customer'',
                                        purpose := ''sales'' \<rparr>
                 else if internalKeywords < publicKeywords \<and> 3 < publicKeywords
                 then defaultContext \<lparr> context_type := ''public_website'', audience := ''public'',
                                        purpose := ''marketing'' \<rparr>
                 else if 10 < dataKeywords
                         \<or> (\<exists>d\<in>set deps. str_includes d ''sequelize'' \<or> str_includes d ''mongoose''
                                              \<or> str_includes d ''prisma'')
                 then defaultContext \<lparr> context_type := ''internal_tool'', audience := ''internal'',
                                        purpose := ''data_management'' \<rparr>
                 else if str_includes description ''api'' \<or> str_includes allContent ''express''
                         \<or> str_includes allContent ''fastify''
                 then defaultContext \<lparr> context_type := ''api_service'', audience := ''developers'',
                                        purpose := ''integration'' \<rparr>
                 else defaultContext)
          in if 50 < length deps \<or> 100000 < length allContent then typed \<lparr> scale := ''large'' \<rparr>
             else if 20 < length deps \<or> 50000 < length allContent then typed \<lparr> scale := ''medium'' \<rparr>
             else typed))"

text \<open>
  The findings of \<^verbatim>\<open>generateEnhancedSuggestions\<close>: \<^verbatim>\<open>id\<close>, \<^verbatim>\<open>category\<close>, \<^verbatim>\<open>impact\<close>,
  \<^verbatim>\<open>effort\<close>, \<^verbatim>\<open>confidence\<close> and \<^verbatim>\<open>providers\<close>; the texts (\<^verbatim>\<open>title\<close>, \<^verbatim>\<open>whyUpgrade\<close>,
  the lists of benefits, \<^verbatim>\<open>roi\<close>, \<^verbatim>\<open>estimatedTimeline\<close>) are constants of the source
  and are left out.
\<close>

record scoredFinding = "provider finding" +
  confidence :: rat

definition fromCatalog :: "catalogEntry \<Rightarrow> provider" where
  "fromCatalog e =
     \<lparr> pv_name = name e, pv_company = Some (company e), pv_url = Some (url e),
       pv_description = description e, pv_pricing = pricing e,
       businessImpact = Some (business_impact e),
       implementationTime = Some (implementation_time e),
       pv_complexity = Some (complexity e), pv_roi = Some (roi e), whyBetter = None \<rparr>"

definition generateEnhancedSuggestions ::
  "apiDatabase \<Rightarrow> enhancedPatterns \<Rightarrow> businessContext \<Rightarrow> scoredFinding list" where
  "generateEnhancedSuggestions db patterns bc =
     (if \<not> hasChatbot patterns \<and> audience bc = ''customer''
      then [\<lparr> category = ''ai-ux'', impact = 9, effort = 4, finding_id = ''ai-chatbot'',
               providers = map fromCatalog
                 (take 3 (filter (\<lambda>e. ''chatbot'' \<in> set (use_cases e)) (ai_ml db))),
               confidence = 95 / 100 \<rparr>]
      else [])
     @ (if context_type bc = ''internal_tool'' \<and> hasDatabase patterns \<and> \<not> hasCaching patterns
        then [\<lparr> category = ''performance'', impact = 8, effort = 4,
                 finding_id = ''database-optimization'',
                 providers =
                   [\<lparr> pv_name = ''Redis'', pv_company = Some ''Redis Ltd.'',
                       pv_url = Some ''https://redis.io'',
                       pv_description = ''In-memory cache for blixtsnabba databasforfragningar'',
                       pv_pricing = ''Gratis (self-hosted) eller fran $7/manad'',
                       businessImpact = Some ''10x snabbare dataatkomst'',
                       implementationTime = Some ''1-2 veckor'',
                       pv_complexity = Some ''medium'', pv_roi = Some ''400-600%'',
                       whyBetter = None \<rparr>],
                 confidence = 9 / 10 \<rparr>]
        else [])
     @ (if context_type bc = ''internal_tool'' \<and> hasUserManagement patterns \<and> \<not> hasAuth patterns
        then [\<lparr> category = ''security'', impact = 9, effort = 5,
                 finding_id = ''auth-improvement'',
                 providers = map fromCatalog (take 2 (authentication db)),
                 confidence = 95 / 100 \<rparr>]
        else [])
     @ (if \<not> hasRecommendations patterns \<and> context_type bc = ''ecommerce''
        then [\<lparr> category = ''ai-business'', impact = 10, effort = 7,
                 finding_id = ''personalization'',
                 providers =
                   \<lparr> pv_name = ''AWS Personalize'', pv_company = None,
                     pv_url = Some ''https://aws.amazon.com/personalize/'',
                     pv_description = ''Fullstandigt hanterad ML-tjanst for realtidspersonalisering'',
                     pv_pricing = ''Fran $0.05/TIU'',
                     businessImpact = Some ''35% okning konvertering'',
                     implementationTime = Some ''8-12 veckor'',
                     pv_complexity = Some ''high'', pv_roi = Some ''400-600%'',
                     whyBetter = None \<rparr>
                   # map fromCatalog
                       (take 2 (filter (\<lambda>e. entry_category e = ''enterprise_ai'') (ai_ml db))),
                 confidence = 9 / 10 \<rparr>]
        else [])
     @ (if context_type bc = ''internal_tool'' \<and> hasDataManagement patterns \<and> \<not> hasReporting patterns
        then [\<lparr> category = ''business_intelligence'', impact = 8, effort = 6,
                 finding_id = ''reporting-system'',
                 providers =
                   [\<lparr> pv_name = ''Chart.js + Custom Dashboard'', pv_company = Some ''Open Source'',
                       pv_url = Some ''https://www.chartjs.org'',
                       pv_description = ''Flexibel losning for anpassade dashboards'',
                       pv_pricing = ''Gratis (utvecklingskostnad)'',
                       businessImpact = Some ''Skraddarsydda rapporter'',
                       implementationTime = Some ''4-6 veckor'',
                       pv_complexity = Some ''medium'', pv_roi = Some ''300-500%'',
                       whyBetter = None \<rparr>,
                    \<lparr> pv_name = ''Grafana'', pv_company = Some ''Grafana Labs'',
                       pv_url = Some ''https://grafana.com'',
                       pv_description = ''Professionella dashboards och alerting'',
                       pv_pricing = ''Gratis (self-hosted)'',
                       businessImpact = Some ''Enterprise-kvalitet visualisering'',
                       implementationTime = Some ''2-3 veckor'',
                       pv_complexity = Some ''low'', pv_roi = Some ''250-400%'',
                       whyBetter = None \<rparr>],
                 confidence = 85 / 100 \<rparr>]
        else [])
     @ (if \<not> hasSearch patterns \<and> audience bc = ''customer''
        then [\<lparr> category = ''ai-ux'', impact = 8, effort = 5, finding_id = ''advanced-search'',
                 providers = map fromCatalog (search db),
                 confidence = 85 / 100 \<rparr>]
        else [])
     @ (if context_type bc = ''ecommerce'' \<and> \<not> hasCheckout patterns
        then [\<lparr> category = ''business'', impact = 9, effort = 3,
                 finding_id = ''payment-optimization'',
                 providers = map fromCatalog (take 3 (payments db)),
                 confidence = 95 / 100 \<rparr>]
        else [])"

text \<open>
  \<^verbatim>\<open>rankSuggestions\<close> adds \<^verbatim>\<open>score\<close> and \<^verbatim>\<open>priority\<close> (\<open>priority_label\<close> here) to each
  suggestion and sorts by falling score.
\<close>

record rankedFinding = scoredFinding +
  score :: rat
  priority_label :: string

definition scoreSuggestion :: "scoredFinding \<Rightarrow> rankedFinding" where
  "scoreSuggestion s =
     scoredFinding.extend s
       \<lparr> score = (impact s * 2 - effort s) * confidence s,
         priority_label = (if 8 \<le> impact s then ''high''
                           else if 6 \<le> impact s then ''medium'' else ''low'') \<rparr>"

definition rankSuggestions :: "scoredFinding list \<Rightarrow> rankedFinding list" where
  "rankSuggestions ss = sort_key (\<lambda>r. - score r) (map scoreSuggestion ss)"

record enhancedAnalysis =
  ea_patterns :: enhancedPatterns
  ea_businessContext :: businessContext

text \<open>
  \<^verbatim>\<open>analyzeProjectAdvanced\<close>. Every step of it catches what it throws, so the call
  returns. The fields \<^verbatim>\<open>files\<close>, \<^verbatim>\<open>dependencies\<close> and \<^verbatim>\<open>gdprRisks\<close> of the analysis
  and \<^verbatim>\<open>marketplace\<close>, \<^verbatim>\<open>gdprCompliance\<close> and \<^verbatim>\<open>businessImpact\<close> of the result do not
  enter the suggestions and are left out.
\<close>

definition analyzeProjectAdvanced ::
  "apiDatabase \<Rightarrow> (string \<Rightarrow> string option) \<Rightarrow> string \<Rightarrow> fileRecord list \<Rightarrow> packageJson
     \<Rightarrow> (enhancedAnalysis, rankedFinding) analysisResult" where
  "analyzeProjectAdvanced db readFileSync projectPath allFiles pkg =
     (let patterns = detectAdvancedPatterns readFileSync projectPath allFiles;
          bc = inferBusinessContext readFileSync projectPath allFiles pkg
      in \<lparr> analysis = \<lparr> ea_patterns = patterns, ea_businessContext = bc \<rparr>,
           suggestions = rankSuggestions (generateEnhancedSuggestions db patterns bc) \<rparr>)"

text \<open>
  A shop: \<^verbatim>\<open>package.json\<close> depends on \<^verbatim>\<open>express\<close> and \<^verbatim>\<open>stripe\<close>, and the one file
  \<^verbatim>\<open>/shop/shop.js\<close> names six of the e-commerce keywords.
\<close>

definition shopJs :: fileRecord where
  "shopJs = \<lparr> path = ''/shop.js'', ext = ''.js'', size_bytes = 60 \<rparr>"

definition shopFile :: "string \<Rightarrow> string option" where
  "shopFile p = (if p = ''/shop/shop.js''
                 then Some ''// shop: cart, product, payment, order, customer''
                 else None)"

definition shopPackage :: packageJson where
  "shopPackage = PackageJson [''express'', ''stripe''] ''Web shop''"

section \<open>EnhancedAnalyzer with ML scoring (enhanced-analyzer.js)\<close>

text \<open>
  A second class of the name \<^verbatim>\<open>EnhancedAnalyzer\<close>, with \<^verbatim>\<open>rankWithMLScoring\<close>; its
  functions carry the suffix \<open>_ml\<close> where the names are those of the simple one. Its
  \<^verbatim>\<open>detectAdvancedPatterns\<close> reads every \<^verbatim>\<open>.js\<close>, \<^verbatim>\<open>.ts\<close>, \<^verbatim>\<open>.jsx\<close> and
  \<^verbatim>\<open>.tsx\<close> file outside of any \<^verbatim>\<open>try\<close>, and each file that matches a group
  overwrites the flags of the group. Of the thirty flags the model keeps the two that
  \<^verbatim>\<open>generateEnhancedSuggestions\<close> reads and two more of the same groups; \<^verbatim>\<open>hasSearch\<close>,
  which it reads as well, is not a property of the object, so \<^verbatim>\<open>!patterns.hasSearch\<close> is
  always true.
\<close>

record mlPatterns =
  ml_hasRecommendations :: bool
  ml_hasChatbot :: bool
  ml_hasPersonalization :: bool
  ml_hasAnalytics :: bool

fun detectAdvancedPatterns_ml ::
  "(string \<Rightarrow> string option) \<Rightarrow> string \<Rightarrow> mlPatterns \<Rightarrow> fileRecord list \<Rightarrow> error + mlPatterns" where
  "detectAdvancedPatterns_ml readFileSync projectPath patterns [] = Inr patterns"
| "detectAdvancedPatterns_ml readFileSync projectPath patterns (f # fs) =
     (if ext f \<in> set [''.js'', ''.ts'', ''.jsx'', ''.tsx'']
      then (case readFileSync (path_join projectPath (path f)) of
              None \<Rightarrow> Inl (ReadError (path_join projectPath (path f)))
            | Some content \<Rightarrow>
                detectAdvancedPatterns_ml readFileSync projectPath
                  ((if rx_test (lits ''recommend'' [''suggest'', ''ml'', ''ai'', ''openai'',
                                                    ''anthropic'']) content
                    then patterns \<lparr> ml_hasRecommendations := str_includes content ''recommend'',
                                    ml_hasChatbot := rx_test (lits ''chat'' [''bot'', ''gpt'']) content \<rparr>
                    else patterns)
                   \<lparr> ml_hasAnalytics :=
                       (rx_test (lits ''analytics'' [''tracking'', ''gtag'', ''mixpanel'']) content
                        \<or> ml_hasAnalytics patterns) \<rparr>)
                  fs)
      else detectAdvancedPatterns_ml readFileSync projectPath patterns fs)"

record mlContext =
  ml_type :: string
  ml_industry :: string
  ml_scale :: string
  monetization :: string

definition mlProvider :: "string \<Rightarrow> string \<Rightarrow> string \<Rightarrow> string \<Rightarrow> provider" where
  "mlProvider n u d p =
     \<lparr> pv_name = n, pv_company = None, pv_url = Some u, pv_description = d, pv_pricing = p,
       businessImpact = None, implementationTime = None, pv_complexity = None, pv_roi = None,
       whyBetter = None \<rparr>"

definition generateEnhancedSuggestions_ml ::
  "mlPatterns \<Rightarrow> mlContext \<Rightarrow> string list \<Rightarrow> scoredFinding list" where
  "generateEnhancedSuggestions_ml patterns businessContext packages =
     (if \<not> ml_hasChatbot patterns
      then [\<lparr> category = ''ai-ux'', impact = 9, effort = 4, finding_id = ''ai-chatbot-advanced'',
               providers =
                 [mlProvider ''OpenAI GPT-4'' ''https://openai.com''
                    ''Branschledande sprakmodell med overlagsen forstaelse och naturlig konversation''
                    ''Fran $0.03/1K tokens'',
                  mlProvider ''Anthropic Claude'' ''https://anthropic.com''
                    ''Sakerhetsfokuserad AI med stark etisk grund och palitliga svar''
                    ''Fran $0.008/1K tokens'',
                  mlProvider ''Microsoft Bot Framework'' ''https://dev.botframework.com''
                    ''Komplett plattform for att bygga, testa och distribuera chatbots''
                    ''Gratis upp till 10K meddelanden/manad''],
               confidence = 95 / 100 \<rparr>]
      else [])
     @ (if \<not> ml_hasPersonalization patterns \<and> ml_type businessContext = ''ecommerce''
        then [\<lparr> category = ''ai-business'', impact = 10, effort = 7,
                 finding_id = ''ai-personalization'',
                 providers =
                   [mlProvider ''AWS Personalize'' ''https://aws.amazon.com/personalize/''
                      ''Fullstandigt hanterad ML-tjanst for realtidspersonalisering''
                      ''Fran $0.05/TIU + datakostnader'',
                    mlProvider ''Google Recommendations AI''
                      ''https://cloud.google.com/recommendations''
                      ''Googles ML-plattform for e-handelsrekommendationer''
                      ''Fran $0.30/1K predictions'',
                    mlProvider ''Dynamic Yield'' ''https://www.dynamicyield.com''
                      ''Enterprise-personalisering med AI och A/B-testning''
                      ''Kontakta for prissattning (Enterprise)''],
                 confidence = 9 / 10 \<rparr>]
        else [])
     @ (if True \<or> ''basic-search'' \<in> set packages
        then [\<lparr> category = ''ai-ux'', impact = 8, effort = 5, finding_id = ''ai-search-engine'',
                 providers =
                   [mlProvider ''Algolia'' ''https://www.algolia.com''
                      ''Branschledande sokning-as-a-service med AI-funktioner''
                      ''Fran $500/manad for 100K sokningar'',
                    mlProvider ''Elasticsearch + OpenSearch'' ''https://www.elastic.co''
                      ''Open source sokmotor med kraftfulla AI-plugins''
                      ''Gratis (self-hosted) eller fran $95/manad (cloud)'',
                    mlProvider ''Azure Cognitive Search''
                      ''https://azure.microsoft.com/en-us/services/search/''
                      ''AI-forbattrad sokning med inbyggd NLP och ML''
                      ''Fran $250/manad for Basic tier''],
                 confidence = 85 / 100 \<rparr>]
        else [])"

definition getBusinessContextBonus :: "'a scoredFinding_scheme \<Rightarrow> mlContext \<Rightarrow> rat" where
  "getBusinessContextBonus suggestion businessContext =
     (if ml_type businessContext = ''ecommerce''
         \<and> (str_includes (category suggestion) ''business''
              \<or> str_includes (finding_id suggestion) ''personalization'')
      then 5 else 0)
     + (if ml_type businessContext = ''saas''
           \<and> (str_includes (category suggestion) ''ai''
                \<or> str_includes (finding_id suggestion) ''analytics'')
        then 3 else 0)"

text \<open>\<^verbatim>\<open>Math.round\<close> rounds to the nearest integer, a half upwards.\<close>

definition js_round :: "rat \<Rightarrow> rat" where
  "js_round x = of_int \<lfloor>x + 1 / 2\<rfloor>"

definition mlScore :: "'a scoredFinding_scheme \<Rightarrow> mlContext \<Rightarrow> rat" where
  "mlScore s businessContext =
     (let impactScore = impact s * 2;
          effortPenalty = effort s * (1 / 2);
          confidenceBonus = confidence s * 10;
          businessContextBonus = getBusinessContextBonus s businessContext
      in impactScore - effortPenalty + confidenceBonus + businessContextBonus)"

definition scoreWithML :: "mlContext \<Rightarrow> scoredFinding \<Rightarrow> rankedFinding" where
  "scoreWithML businessContext s =
     scoredFinding.extend s
       \<lparr> score = js_round (mlScore s businessContext * 10) / 10,
         priority_label = (if 15 < mlScore s businessContext then ''high''
                           else if 10 < mlScore s businessContext then ''medium''
                           else ''low'') \<rparr>"

definition rankWithMLScoring :: "scoredFinding list \<Rightarrow> mlContext \<Rightarrow> rankedFinding list" where
  "rankWithMLScoring ss businessContext =
     sort_key (\<lambda>r. - score r) (map (scoreWithML businessContext) ss)"

section \<open>CodeAnalyzer (analyzer.js)\<close>

text \<open>
  The basic analyzer, last of the chain and the only one behind \<^verbatim>\<open>routes/api.js\<close>.
  \<^verbatim>\<open>detectPatterns\<close> reads every \<^verbatim>\<open>.js\<close> and \<^verbatim>\<open>.ts\<close> file outside of any \<^verbatim>\<open>try\<close>;
  \<^verbatim>\<open>analyzeDependencies\<close> parses \<^verbatim>\<open>package.json\<close> outside of any \<^verbatim>\<open>try\<close>.
  \<^verbatim>\<open>checkGDPRRisks\<close> reads the same files once more and does not enter the suggestions; it
  is left out, with \<^verbatim>\<open>codeSnippets\<close>. The list of the files is a parameter: it is the
  list of \<open>getFileStructure_basic\<close> when that walk returns.
\<close>

record basicPatterns =
  hasAuth_b :: bool
  hasAPI_b :: bool
  hasDatabase_b :: bool
  hasPayment :: bool
  hasFileUpload :: bool
  hasEmail :: bool
  hasChat :: bool
  hasSearch_b :: bool

definition anyIncludes :: "string \<Rightarrow> string list \<Rightarrow> bool" where
  "anyIncludes content words = (\<exists>w\<in>set words. str_includes content w)"

fun detectPatterns ::
  "(string \<Rightarrow> string option) \<Rightarrow> string \<Rightarrow> basicPatterns \<Rightarrow> fileRecord list
     \<Rightarrow> error + basicPatterns" where
  "detectPatterns readFileSync projectPath patterns [] = Inr patterns"
| "detectPatterns readFileSync projectPath patterns (f # fs) =
     (if ext f = ''.js'' \<or> ext f = ''.ts''
      then (case readFileSync (path_join projectPath (path f)) of
              None \<Rightarrow> Inl (ReadError (path_join projectPath (path f)))
            | Some content \<Rightarrow>
                detectPatterns readFileSync projectPath
                  \<lparr> hasAuth_b = hasAuth_b patterns \<or> anyIncludes content [''passport'', ''jwt'', ''auth''],
                    hasAPI_b = hasAPI_b patterns
                      \<or> anyIncludes content [''express'', ''app.get'', ''app.post''],
                    hasDatabase_b = hasDatabase_b patterns
                      \<or> anyIncludes content [''mongoose'', ''sequelize'', ''prisma''],
                    hasPayment = hasPayment patterns
                      \<or> anyIncludes content [''stripe'', ''paypal'', ''payment''],
                    hasFileUpload = hasFileUpload patterns \<or> anyIncludes content [''multer'', ''upload''],
                    hasEmail = hasEmail patterns \<or> anyIncludes content [''nodemailer'', ''sendgrid''],
                    hasChat = hasChat patterns \<or> anyIncludes content [''socket.io'', ''websocket''],
                    hasSearch_b = hasSearch_b patterns
                      \<or> anyIncludes content [''elasticsearch'', ''search''] \<rparr>
                  fs)
      else detectPatterns readFileSync projectPath patterns fs)"

definition noBasicPatterns :: basicPatterns where
  "noBasicPatterns = \<lparr> hasAuth_b = False, hasAPI_b = False, hasDatabase_b = False,
     hasPayment = False, hasFileUpload = False, hasEmail = False, hasChat = False,
     hasSearch_b = False \<rparr>"

text \<open>\<^verbatim>\<open>analyzeDependencies\<close>: the packages, and those of them on the list of risks.\<close>

definition analyzeDependencies :: "packageJson \<Rightarrow> error + string list \<times> string list" where
  "analyzeDependencies pkg =
     (case pkg of
        NoPackageJson \<Rightarrow> Inr ([], [])
      | BadPackageJson \<Rightarrow> Inl SyntaxError
      | PackageJson deps descr \<Rightarrow>
          Inr (deps, filter (\<lambda>p. p \<in> set [''lodash'', ''moment'', ''request'']) deps))"

record basicSuggestion = rated +
  title :: string
  apis :: "string list"
  estimatedHours :: rat

definition generateSuggestions :: "basicPatterns \<Rightarrow> string list \<Rightarrow> basicSuggestion list" where
  "generateSuggestions patterns security =
     (if \<not> hasChat patterns
      then [\<lparr> category = ''UX'', impact = 8, effort = 3,
               title = ''Lagg till AI-chatbot for kundsupport'',
               apis = [''OpenAI GPT-4'', ''Anthropic Claude'', ''Dialogflow''],
               estimatedHours = 8 \<rparr>]
      else [])
     @ (if \<not> hasSearch_b patterns
        then [\<lparr> category = ''UX'', impact = 7, effort = 4,
                 title = ''Forbattra sokfunktionalitet'',
                 apis = [''Elasticsearch'', ''Algolia'', ''Azure Cognitive Search''],
                 estimatedHours = 16 \<rparr>]
        else [])
     @ [\<lparr> category = ''Business'', impact = 9, effort = 6,
           title = ''Personaliserade produktrekommendationer'',
           apis = [''AWS Personalize'', ''Google Recommendations AI'', ''Azure Personalizer''],
           estimatedHours = 32 \<rparr>,
        \<lparr> category = ''DevOps'', impact = 8, effort = 4,
           title = ''Implementera avancerad monitorering'',
           apis = [''DataDog'', ''New Relic'', ''Grafana Cloud''],
           estimatedHours = 12 \<rparr>,
        \<lparr> category = ''Content'', impact = 6, effort = 3,
           title = ''Automatisk innehallsgenerering'',
           apis = [''OpenAI GPT-4'', ''Jasper AI'', ''Copy.ai''],
           estimatedHours = 10 \<rparr>]
     @ (if 0 < length security
        then [\<lparr> category = ''Security'', impact = 9, effort = 2,
                 title = ''Uppdatera sakerhetsrisker i dependencies'',
                 apis = [''Snyk'', ''WhiteSource'', ''GitHub Security''],
                 estimatedHours = 4 \<rparr>]
        else [])"

text \<open>
  \<^verbatim>\<open>rankSuggestions\<close> of this class (\<open>rankSuggestions_basic\<close>): the score (the field
  \<^verbatim>\<open>score\<close>, \<open>hourly_score\<close> here) divides by \<^verbatim>\<open>estimatedHours\<close>, which is a positive
  constant in every suggestion that is generated; the list is cut to ten entries.
\<close>

record rankedSuggestion = basicSuggestion +
  hourly_score :: rat

definition scoreSuggestion_basic :: "basicSuggestion \<Rightarrow> rankedSuggestion" where
  "scoreSuggestion_basic s =
     basicSuggestion.extend s
       \<lparr> hourly_score = (impact s * 2 - effort s) / estimatedHours s * 10 \<rparr>"

definition rankSuggestions_basic :: "basicSuggestion list \<Rightarrow> rankedSuggestion list" where
  "rankSuggestions_basic ss =
     take 10 (sort_key (\<lambda>r. - hourly_score r) (map scoreSuggestion_basic ss))"

definition analyzeProject ::
  "(string \<Rightarrow> string option) \<Rightarrow> string \<Rightarrow> fileRecord list \<Rightarrow> packageJson
     \<Rightarrow> error + (basicPatterns, rankedSuggestion) analysisResult" where
  "analyzeProject readFileSync projectPath allFiles pkg =
     (case analyzeDependencies pkg of
        Inl e \<Rightarrow> Inl e
      | Inr (packages, security) \<Rightarrow>
         (case detectPatterns readFileSync projectPath noBasicPatterns allFiles of
            Inl e \<Rightarrow> Inl e
          | Inr patterns \<Rightarrow>
              Inr \<lparr> analysis = patterns,
                    suggestions = rankSuggestions_basic (generateSuggestions patterns security) \<rparr>))"

section \<open>DeepCodeAnalyzer (deep-code-analyzer.js)\<close>

text \<open>
  \<^verbatim>\<open>readEntireCodebase\<close> reads every analyzable file inside a \<^verbatim>\<open>try\<close>; a file that
  cannot be read is named on the console and skipped. Of the codebase the model keeps
  \<^verbatim>\<open>totalLines\<close> and \<^verbatim>\<open>fileContents\<close>, an object keyed by the path relative to the
  project: an assignment to a key it has replaces the value in place, a new key goes to
  the end (the paths start with a slash, so no key is an array index).
\<close>

definition isAnalyzableFile :: "string \<Rightarrow> bool" where
  "isAnalyzableFile e =
     (e \<in> set [''.js'', ''.ts'', ''.jsx'', ''.tsx'', ''.py'', ''.java'', ''.php'', ''.rb'', ''.go'',
               ''.cs'', ''.json''])"

fun objSet :: "string \<Rightarrow> 'v \<Rightarrow> (string \<times> 'v) list \<Rightarrow> (string \<times> 'v) list" where
  "objSet k v [] = [(k, v)]"
| "objSet k v ((k', v') # m) = (if k' = k then (k, v) # m else (k', v') # objSet k v m)"

text \<open>\<^verbatim>\<open>xs.join(sep)\<close>.\<close>

fun joinWith :: "string \<Rightarrow> string list \<Rightarrow> string" where
  "joinWith sep [] = []"
| "joinWith sep [x] = x"
| "joinWith sep (x # y # ys) = x @ sep @ joinWith sep (y # ys)"

record deepCodebase =
  dc_totalLines :: nat
  fileContents :: "(string \<times> string) list"

definition readEntireCodebase ::
  "(string \<Rightarrow> string option) \<Rightarrow> string \<Rightarrow> 'a fileEntry_scheme list \<Rightarrow> deepCodebase" where
  "readEntireCodebase readFileSync projectPath allFiles =
     foldl (\<lambda>codebase f.
              if isAnalyzableFile (ext f)
              then (case readFileSync (path_join projectPath (path f)) of
                      None \<Rightarrow> codebase
                    | Some content \<Rightarrow>
                        \<lparr> dc_totalLines = dc_totalLines codebase + length (split_newline content),
                          fileContents = objSet (path f) content (fileContents codebase) \<rparr>)
              else codebase)
       \<lparr> dc_totalLines = 0, fileContents = [] \<rparr> allFiles"

text \<open>
  \<^verbatim>\<open>analyzeSecurityInCode\<close> goes through the lines of every file read. A line that
  contains \<^verbatim>\<open>req.body\<close>, in a file that contains none of \<^verbatim>\<open>validate\<close>, \<^verbatim>\<open>joi\<close> and
  \<^verbatim>\<open>yup\<close>, is an issue of unvalidated input; a line that contains \<^verbatim>\<open>query\<close>, \<^verbatim>\<open>+\<close> and
  one of \<^verbatim>\<open>req.\<close> and \<^verbatim>\<open>${\<close> is an issue of SQL injection; one line can be both.
\<close>

datatype issueKind = unvalidated_input | sql_injection

record specificIssue =
  issue_type :: issueKind
  issue_file :: string
  issue_line :: nat
  issue_code :: string

definition lineIssues :: "string \<Rightarrow> string \<Rightarrow> nat \<Rightarrow> string \<Rightarrow> specificIssue list" where
  "lineIssues filePath content index line =
     (if str_includes line ''req.body'' \<and> \<not> str_includes content ''validate''
           \<and> \<not> str_includes content ''joi'' \<and> \<not> str_includes content ''yup''
      then [\<lparr> issue_type = unvalidated_input, issue_file = filePath, issue_line = index + 1,
               issue_code = trim line \<rparr>]
      else [])
     @ (if str_includes line ''query'' \<and> str_includes line ''+''
             \<and> (str_includes line ''req.'' \<or> str_includes line ''${'')
        then [\<lparr> issue_type = sql_injection, issue_file = filePath, issue_line = index + 1,
                 issue_code = trim line \<rparr>]
        else [])"

record securityFindings =
  vulnerableEndpoints :: nat
  dataExposureRisks :: nat
  specificIssues :: "specificIssue list"

definition analyzeSecurityInCode :: "deepCodebase \<Rightarrow> securityFindings" where
  "analyzeSecurityInCode codebase =
     (let issues =
            concat (map (\<lambda>(filePath, content).
                           concat (map (\<lambda>(index, line). lineIssues filePath content index line)
                                     (enumerate 0 (split_newline content))))
                      (fileContents codebase))
      in \<lparr> vulnerableEndpoints = length (filter (\<lambda>i. issue_type i = unvalidated_input) issues),
           dataExposureRisks = length (filter (\<lambda>i. issue_type i = sql_injection) issues),
           specificIssues = issues \<rparr>)"

text \<open>
  \<^verbatim>\<open>identifySpecificSecurityIssues\<close> makes one problem of every issue (the texts are
  written without diacritics; the description, which quotes line and file, is left out).
\<close>

record securityProblem =
  sp_title :: string
  sp_severity :: string
  sp_risk :: string

definition identifySpecificSecurityIssues :: "securityFindings \<Rightarrow> securityProblem list" where
  "identifySpecificSecurityIssues findings =
     map (\<lambda>issue. case issue_type issue of
                     unvalidated_input \<Rightarrow>
                       \<lparr> sp_title = ''Ovaliderad anvandarinput'', sp_severity = ''critical'',
                         sp_risk = ''SQL injection, XSS, datakorruption'' \<rparr>
                   | sql_injection \<Rightarrow>
                       \<lparr> sp_title = ''SQL Injection sarbarhet'', sp_severity = ''critical'',
                         sp_risk = ''Fullstandig databaskompromiss'' \<rparr>)
       (specificIssues findings)"

text \<open>
  A finding with a confidence. \<^verbatim>\<open>getSecurityProviders\<close> takes the first two entries of
  the section \<^verbatim>\<open>authentication\<close> and the element 0 of the section \<^verbatim>\<open>monitoring\<close>, which
  is \<^verbatim>\<open>undefined\<close> (\<open>None\<close>) when the section is empty.
\<close>

record 'p assessedFinding = "'p finding" +
  finding_confidence :: rat

definition getSecurityProviders :: "apiDatabase \<Rightarrow> catalogEntry option list" where
  "getSecurityProviders db =
     map Some (take 2 (authentication db))
     @ [case monitoring db of [] \<Rightarrow> None | m # rest \<Rightarrow> Some m]"

text \<open>
  \<^verbatim>\<open>createSecurityRecommendation\<close>: the impact is \<^verbatim>\<open>Math.min(10, 6 + n)\<close> and the effort
  \<^verbatim>\<open>Math.max(3, n)\<close> for the number \<open>n\<close> of problems. The texts are left out.
\<close>

definition createSecurityRecommendation ::
  "apiDatabase \<Rightarrow> deepCodebase \<Rightarrow> catalogEntry option assessedFinding" where
  "createSecurityRecommendation db codebase =
     (let actualFindings = analyzeSecurityInCode codebase;
          specificProblems = identifySpecificSecurityIssues actualFindings
      in \<lparr> category = ''security'',
           impact = min 10 (6 + of_nat (length specificProblems)),
           effort = max 3 (of_nat (length specificProblems)),
           finding_id = ''security_upgrade'',
           providers = getSecurityProviders db,
           finding_confidence = 95 / 100 \<rparr>)"

text \<open>
  \<^verbatim>\<open>identifyProblems\<close>. \<^verbatim>\<open>analyzeAuthentication\<close> answers \<^verbatim>\<open>basic\<close> for every code,
  \<^verbatim>\<open>analyzeDatabaseUsage\<close> answers \<^verbatim>\<open>SQL Database\<close> and \<^verbatim>\<open>hasTestFiles\<close> answers
  \<^verbatim>\<open>false\<close>, so the problems of security and of quality are always found. Only the
  problem of security has a recommendation: the functions that make the others return
  \<^verbatim>\<open>null\<close>, and \<^verbatim>\<open>identifyOpportunities\<close> returns no opportunity.
\<close>

datatype problemType = SecurityProblem | PerformanceProblem | MonitoringProblem | QualityProblem

definition identifyProblems :: "deepCodebase \<Rightarrow> problemType list" where
  "identifyProblems codebase =
     (let allCode = joinWith '' '' (map snd (fileContents codebase))
      in [SecurityProblem]
         @ (if \<not> rx_test (lits ''cache'' [''redis'', ''memcached'']) allCode
            then [PerformanceProblem] else [])
         @ (if \<not> rx_test (lits ''log'' [''monitor'', ''track'', ''analytics'']) allCode
            then [MonitoringProblem] else [])
         @ [QualityProblem])"

definition createRecommendationForProblem ::
  "apiDatabase \<Rightarrow> problemType \<Rightarrow> deepCodebase \<Rightarrow> catalogEntry option assessedFinding option" where
  "createRecommendationForProblem db problem codebase =
     (case problem of
        SecurityProblem \<Rightarrow> Some (createSecurityRecommendation db codebase)
      | PerformanceProblem \<Rightarrow> None
      | MonitoringProblem \<Rightarrow> None
      | QualityProblem \<Rightarrow> None)"

definition generateIntelligentRecommendations_deep ::
  "apiDatabase \<Rightarrow> deepCodebase \<Rightarrow> problemType list \<Rightarrow> catalogEntry option assessedFinding list" where
  "generateIntelligentRecommendations_deep db codebase problems =
     sort_key (\<lambda>r. - impact r)
       (concat (map (\<lambda>problem. case createRecommendationForProblem db problem codebase of
                                 None \<Rightarrow> []
                               | Some recommendation \<Rightarrow> [recommendation])
                  problems))"

record deepAnalysis =
  da_problems :: "problemType list"
  da_totalLines :: nat

text \<open>
  \<^verbatim>\<open>performDeepAnalysis\<close>. The purpose and the architecture of the application are
  computed from the contents with string searches that do not throw; they enter the
  texts of the finding only and are left out.
\<close>

definition performDeepAnalysis ::
  "apiDatabase \<Rightarrow> (string \<Rightarrow> string option) \<Rightarrow> string \<Rightarrow> 'a fileEntry_scheme list
     \<Rightarrow> (deepAnalysis, catalogEntry option assessedFinding) analysisResult" where
  "performDeepAnalysis db readFileSync projectPath allFiles =
     (let codebase = readEntireCodebase readFileSync projectPath allFiles;
          problems = identifyProblems codebase
      in \<lparr> analysis = \<lparr> da_problems = problems, da_totalLines = dc_totalLines codebase \<rparr>,
           suggestions = generateIntelligentRecommendations_deep db codebase problems \<rparr>)"

text \<open>
  A project of one file \<^verbatim>\<open>/api/routes.js\<close> with eleven route handlers, one on a line,
  each of which passes \<^verbatim>\<open>req.body\<close> on.
\<close>

definition routesJs :: fileEntry where
  "routesJs = \<lparr> path = ''/routes.js'', ext = ''.js'' \<rparr>"

definition routesFile :: "string \<Rightarrow> string option" where
  "routesFile p =
     (if p = ''/api/routes.js''
      then Some (joinWith [newline]
                   (replicate 11 ''router.post(route, (req, res) => save(req.body));''))
      else None)"

definition searchEntry :: "string \<Rightarrow> catalogEntry" where
  "searchEntry n = \<lparr> name = n, company = n, url = ''https://example.com'',
     description = ''Search'', pricing = ''Gratis'', business_impact = ''30% fler traffar'',
     implementation_time = ''1 vecka'', complexity = ''low'', roi = ''200%'',
     use_cases = [''search''], entry_category = ''search'' \<rparr>"

definition fourSearchProviders :: apiDatabase where
  "fourSearchProviders = \<lparr> payments = [], authentication = [], analytics = [],
      communication = [],
      search = [searchEntry ''Algolia'', searchEntry ''Elasticsearch'', searchEntry ''Typesense'',
                searchEntry ''Meilisearch''],
      media_storage = [], monitoring = [], ai_ml = [] \<rparr>"

section \<open>AdvancedCodeAnalyzer\<close>

text \<open>
  \<^verbatim>\<open>buildCodebaseMap\<close> reads every code file with \<^verbatim>\<open>fs.readFileSync\<close> outside of any
  \<^verbatim>\<open>try\<close>: the first file that cannot be read ends the loop with its exception. The
  model keeps the files read and \<^verbatim>\<open>totalLines\<close>; what is extracted from a content
  after it was read (components, functions, routes, models, imports) is left out.
\<close>

definition advanced_isCodeFile :: "string \<Rightarrow> bool" where
  "advanced_isCodeFile e =
     (e \<in> set [''.js'', ''.ts'', ''.jsx'', ''.tsx'', ''.py'', ''.java'', ''.php'', ''.rb'', ''.go'',
               ''.cs''])"

record codebaseMap =
  cm_files :: "(string \<times> string) list"
  cm_totalLines :: nat

fun buildCodebaseMap ::
  "(string \<Rightarrow> string option) \<Rightarrow> string \<Rightarrow> codebaseMap \<Rightarrow> 'a fileEntry_scheme list
     \<Rightarrow> error + codebaseMap" where
  "buildCodebaseMap readFileSync projectPath codebase [] = Inr codebase"
| "buildCodebaseMap readFileSync projectPath codebase (f # fs) =
     (if advanced_isCodeFile (ext f)
      then (case readFileSync (path_join projectPath (path f)) of
              None \<Rightarrow> Inl (ReadError (path_join projectPath (path f)))
            | Some content \<Rightarrow>
                buildCodebaseMap readFileSync projectPath
                  \<lparr> cm_files = cm_files codebase @ [(path f, content)],
                    cm_totalLines = cm_totalLines codebase + length (split_newline content) \<rparr>
                  fs)
      else buildCodebaseMap readFileSync projectPath codebase fs)"

definition emptyCodebaseMap :: codebaseMap where
  "emptyCodebaseMap = \<lparr> cm_files = [], cm_totalLines = 0 \<rparr>"

section \<open>IntelligentCodeAnalyzer (intelligent-code-analyzer.js)\<close>

text \<open>
  The patterns of \<^verbatim>\<open>initializeCodePatterns\<close>, in the order of the object; all carry the
  flags \<^verbatim>\<open>g\<close> and \<^verbatim>\<open>i\<close>.
\<close>

definition codePatterns :: "(string \<times> rx) list" where
  "codePatterns =
     [(''mvc'', lits ''controller'' [''model'', ''view'', ''routes'']),
      (''api'', anyOf (Seq (Lit ''app.'') (lits ''get'' [''post'', ''put'', ''delete'']))
                  [Lit ''router.'', Lit ''endpoint'', Lit ''api'']),
      (''microservice'', lits ''service'' [''microservice'', ''docker'', ''kubernetes'']),
      (''database'', lits ''database'' [''db.'', ''sql'', ''query'', ''table'', ''schema'',
                                        ''migration'']),
      (''crud'', lits ''create'' [''read'', ''update'', ''delete'', ''insert'', ''select'', ''find'',
                                  ''save'']),
      (''orm'', lits ''sequelize'' [''mongoose'', ''prisma'', ''typeorm'', ''knex'']),
      (''frontend'', lits ''react'' [''vue'', ''angular'', ''html'', ''css'', ''dom'', ''window'',
                                     ''document'']),
      (''spa'', lits ''router'' [''route'', ''navigation'', ''component'', ''state'']),
      (''responsive'', anyOf (Lit ''mobile'')
                         [Lit ''tablet'', Lit ''responsive'',
                          Seq (Lit ''media'') (Seq DotStar (Lit ''query''))]),
      (''authentication'', lits ''login'' [''auth'', ''jwt'', ''session'', ''password'', ''token'']),
      (''authorization'', lits ''role'' [''permission'', ''access'', ''admin'', ''user'']),
      (''payment'', lits ''payment'' [''stripe'', ''paypal'', ''billing'', ''invoice'',
                                      ''transaction'']),
      (''ecommerce'', lits ''product'' [''cart'', ''order'', ''checkout'', ''inventory'',
                                        ''catalog'']),
      (''external_api'', anyOf (Lit ''fetch'')
                           [Lit ''axios'', Lit ''http'', Lit ''request'',
                            Seq (Lit ''api'') (Seq DotStar (Lit ''call''))]),
      (''webhook'', lits ''webhook'' [''callback'', ''event'', ''trigger'']),
      (''email'', lits ''email'' [''mail'', ''smtp'', ''sendgrid'', ''nodemailer'']),
      (''caching'', lits ''cache'' [''redis'', ''memcached'', ''storage'']),
      (''optimization'', lits ''optimize'' [''performance'', ''speed'', ''fast'']),
      (''scaling'', lits ''scale'' [''load'', ''cluster'', ''worker'']),
      (''encryption'', lits ''encrypt'' [''decrypt'', ''hash'', ''bcrypt'', ''crypto'']),
      (''validation'', lits ''validate'' [''sanitize'', ''joi'', ''yup'', ''schema'']),
      (''security'', lits ''security'' [''secure'', ''protect'', ''vulnerability'']),
      (''logging'', lits ''log'' [''winston'', ''bunyan'', ''console.'']),
      (''monitoring'', lits ''monitor'' [''metric'', ''analytics'', ''track'']),
      (''error_handling'', anyOf (Seq (Lit ''try'') (Seq DotStar (Lit ''catch'')))
                             [Lit ''error'', Lit ''exception'', Lit ''throw'']),
      (''file_upload'', lits ''upload'' [''multer'', ''file'', ''document'', ''attachment'']),
      (''file_processing'', lits ''process'' [''convert'', ''transform'', ''parse'']),
      (''realtime'', lits ''socket'' [''websocket'', ''realtime'', ''live'', ''push'']),
      (''messaging'', lits ''message'' [''chat'', ''notification'', ''alert'']),
      (''cms'', lits ''content'' [''cms'', ''blog'', ''article'', ''post'']),
      (''search'', lits ''search'' [''index'', ''elasticsearch'', ''algolia'']),
      (''automation'', lits ''automate'' [''schedule'', ''cron'', ''job'', ''task'']),
      (''workflow'', lits ''workflow'' [''process'', ''step'', ''stage'', ''pipeline''])]"

definition intelligent_isCodeFile :: "string \<Rightarrow> bool" where
  "intelligent_isCodeFile e =
     (e \<in> set [''.js'', ''.ts'', ''.py'', ''.java'', ''.php'', ''.rb'', ''.go'', ''.cs'', ''.cpp'',
               ''.c''])"

text \<open>
  The density of a pattern is \<^verbatim>\<open>matches.length / analysis.totalLines * 1000\<close>, a number of
  JavaScript: the quotient of two counts is \<^verbatim>\<open>NaN\<close> for 0/0 and \<^verbatim>\<open>Infinity\<close> for a
  positive count over 0, and every comparison with \<^verbatim>\<open>NaN\<close> is false. The finite values
  are rationals.
\<close>

datatype jsNumber = Num rat | Infinity | NaN

definition js_divide :: "nat \<Rightarrow> nat \<Rightarrow> jsNumber" where
  "js_divide a b =
     (if b = 0 then (if a = 0 then NaN else Infinity) else Num (of_nat a / of_nat b))"

text \<open>The product with a positive constant, and the comparisons with a constant.\<close>

fun js_times :: "jsNumber \<Rightarrow> rat \<Rightarrow> jsNumber" where
  "js_times (Num x) c = Num (x * c)"
| "js_times Infinity c = Infinity"
| "js_times NaN c = NaN"

fun js_greater :: "jsNumber \<Rightarrow> rat \<Rightarrow> bool" where
  "js_greater (Num x) c = (c < x)"
| "js_greater Infinity c = True"
| "js_greater NaN c = False"

fun js_less :: "jsNumber \<Rightarrow> rat \<Rightarrow> bool" where
  "js_less (Num x) c = (x < c)"
| "js_less Infinity c = False"
| "js_less NaN c = False"

record patternStat =
  ps_count :: nat
  density :: jsNumber
  present :: bool

record codeAnalysis =
  ca_totalLines :: nat
  ca_patterns :: "(string \<times> patternStat) list"

text \<open>
  \<^verbatim>\<open>performDeepCodeAnalysis\<close> reads every code file inside a \<^verbatim>\<open>try\<close> and skips the ones
  that cannot be read; the contents read are concatenated, each followed by a newline,
  and every pattern is counted in the whole. The snippets, the technologies, the
  complexity and the functional areas enter texts only and are left out.
\<close>

definition performDeepCodeAnalysis ::
  "(string \<Rightarrow> string option) \<Rightarrow> string \<Rightarrow> 'a fileEntry_scheme list \<Rightarrow> codeAnalysis" where
  "performDeepCodeAnalysis readFileSync projectPath allFiles =
     (let (allCode, total) =
            foldl (\<lambda>(allCode, total) f.
                     if intelligent_isCodeFile (ext f)
                     then (case readFileSync (path_join projectPath (path f)) of
                             None \<Rightarrow> (allCode, total)
                           | Some content \<Rightarrow>
                               (allCode @ content @ [newline],
                                total + length (split_newline content)))
                     else (allCode, total))
              ([], 0) allFiles
      in \<lparr> ca_totalLines = total,
           ca_patterns =
             map (\<lambda>(patternName, regex).
                    (patternName,
                     \<lparr> ps_count = rx_count regex allCode,
                       density = js_times (js_divide (rx_count regex allCode) total) 1000,
                       present = (0 < rx_count regex allCode) \<rparr>))
               codePatterns \<rparr>)"

text \<open>
  \<^verbatim>\<open>codeAnalysis.patterns.name\<close>. Every name the analyzer reads is a key of
  \<open>codePatterns\<close>, so the second case does not occur.
\<close>

definition patternOf :: "codeAnalysis \<Rightarrow> string \<Rightarrow> patternStat" where
  "patternOf a patternName =
     (case map_of (ca_patterns a) patternName of
        Some stat \<Rightarrow> stat
      | None \<Rightarrow> \<lparr> ps_count = 0, density = NaN, present = False \<rparr>)"

record projectContext =
  pc_type :: string
  pc_purpose :: string
  pc_audience :: string
  pc_scale :: string
  maturity :: string
  businessModel :: string

definition inferProjectContext :: "codeAnalysis \<Rightarrow> projectContext" where
  "inferProjectContext codeAnalysis =
     (let p = patternOf codeAnalysis;
          typed =
            (if js_greater (density (p ''ecommerce'')) 5
             then (''ecommerce'', ''sales'', ''customers'', ''b2c'')
             else if js_greater (density (p ''api'')) 10 \<and> js_less (density (p ''frontend'')) 2
             then (''api_service'', ''integration'', ''developers'', ''b2b'')
             else if js_greater (density (p ''cms'')) 3
             then (''content_platform'', ''publishing'', ''readers'', ''content'')
             else if present (p ''authentication'') \<and> present (p ''authorization'')
                     \<and> js_greater (density (p ''database'')) 8
             then (''business_application'', ''operations'', ''employees'', ''internal'')
             else if js_greater (density (p ''frontend'')) 5
             then (''web_application'', ''service'', ''users'', ''saas'')
             else (''unknown'', ''unknown'', ''unknown'', ''unknown''))
      in case typed of (type', purpose', audience', businessModel') \<Rightarrow>
           \<lparr> pc_type = type', pc_purpose = purpose', pc_audience = audience',
             pc_scale = (if 50000 < ca_totalLines codeAnalysis then ''enterprise''
                         else if 10000 < ca_totalLines codeAnalysis then ''medium''
                         else ''small''),
             maturity = (if present (p ''monitoring'') \<and> present (p ''caching'')
                            \<and> js_greater (density (p ''security'')) 3
                         then ''mature''
                         else if present (p ''error_handling'') \<and> present (p ''validation'')
                         then ''developing'' else ''early''),
             businessModel = businessModel' \<rparr>)"

text \<open>The field \<^verbatim>\<open>type\<close> of what \<^verbatim>\<open>analyzeDataStorage\<close> returns.\<close>

definition analyzeDataStorage :: "codeAnalysis \<Rightarrow> string" where
  "analyzeDataStorage codeAnalysis =
     (if js_greater (density (patternOf codeAnalysis ''database'')) 5
      then (if present (patternOf codeAnalysis ''orm'')
            then ''database_with_orm'' else ''raw_database'')
      else ''file_based'')"

text \<open>The field \<^verbatim>\<open>multiplier\<close> of what \<^verbatim>\<open>calculateImpact\<close> returns.\<close>

definition calculateImpact :: "string \<Rightarrow> rat" where
  "calculateImpact projectScale =
     (if projectScale = ''enterprise'' then 3 else if projectScale = ''medium'' then 2 else 1)"

definition calculateIntelligenceScore :: "codeAnalysis \<Rightarrow> projectContext \<Rightarrow> string \<Rightarrow> rat" where
  "calculateIntelligenceScore codeAnalysis projectContext recommendationType =
     (let relevanceMap =
            [(''caching'', [''business_application'', ''api_service'', ''web_application'']),
             (''monitoring'', [''api_service'', ''business_application'']),
             (''security'', [''ecommerce'', ''business_application''])]
      in min 100
           (50 + min 30 (of_nat (ca_totalLines codeAnalysis) / 1000)
            + (if maturity projectContext = ''mature'' then 20
               else if maturity projectContext = ''developing'' then 10 else 0)
            + (case map_of relevanceMap recommendationType of
                 None \<Rightarrow> 0
               | Some types \<Rightarrow> if pc_type projectContext \<in> set types then 25 else 0)))"

text \<open>
  \<^verbatim>\<open>getRelevantProviders\<close>: the first two entries of the section of the catalog that
  \<^verbatim>\<open>categoryMap\<close> gives for the category, the section \<^verbatim>\<open>monitoring\<close> for a category it
  does not have.
\<close>

definition getRelevantProviders :: "apiDatabase \<Rightarrow> string \<Rightarrow> catalogEntry list" where
  "getRelevantProviders db cat =
     (let categoryMap =
            [(''caching'', monitoring), (''security'', authentication),
             (''performance'', monitoring), (''monitoring'', monitoring),
             (''analytics'', analytics), (''ux'', analytics), (''quality'', monitoring),
             (''documentation'', communication), (''maintenance'', monitoring)]
      in take 2 ((case map_of categoryMap cat of None \<Rightarrow> monitoring | Some dbCategory \<Rightarrow> dbCategory)
                   db))"

record intelligentFinding = "catalogEntry assessedFinding" +
  intelligenceScore :: rat

definition analyzeDataStorageImprovements ::
  "apiDatabase \<Rightarrow> codeAnalysis \<Rightarrow> projectContext \<Rightarrow> intelligentFinding list" where
  "analyzeDataStorageImprovements db codeAnalysis projectContext =
     (if str_includes (analyzeDataStorage codeAnalysis) ''database''
           \<and> \<not> present (patternOf codeAnalysis ''caching'')
      then [\<lparr> category = ''performance'',
               impact = min 9 (5 + calculateImpact (pc_scale projectContext)),
               effort = 4, finding_id = ''add_caching'',
               providers = getRelevantProviders db ''caching'', finding_confidence = 9 / 10,
               intelligenceScore =
                 calculateIntelligenceScore codeAnalysis projectContext ''caching'' \<rparr>]
      else [])"

definition analyzePerformanceImprovements ::
  "apiDatabase \<Rightarrow> codeAnalysis \<Rightarrow> projectContext \<Rightarrow> intelligentFinding list" where
  "analyzePerformanceImprovements db codeAnalysis projectContext =
     (if \<not> present (patternOf codeAnalysis ''monitoring'') \<and> 1000 < ca_totalLines codeAnalysis
      then [\<lparr> category = ''monitoring'', impact = 7, effort = 3, finding_id = ''add_monitoring'',
               providers = getRelevantProviders db ''monitoring'', finding_confidence = 8 / 10,
               intelligenceScore =
                 calculateIntelligenceScore codeAnalysis projectContext ''monitoring'' \<rparr>]
      else [])"

definition analyzeSecurityImprovements ::
  "apiDatabase \<Rightarrow> codeAnalysis \<Rightarrow> projectContext \<Rightarrow> intelligentFinding list" where
  "analyzeSecurityImprovements db codeAnalysis projectContext =
     (if \<not> present (patternOf codeAnalysis ''validation'')
           \<and> present (patternOf codeAnalysis ''api'')
      then [\<lparr> category = ''security'', impact = 8, effort = 4, finding_id = ''add_validation'',
               providers = getRelevantProviders db ''security'', finding_confidence = 9 / 10,
               intelligenceScore =
                 calculateIntelligenceScore codeAnalysis projectContext ''security'' \<rparr>]
      else [])"

definition analyzeUserExperienceImprovements ::
  "apiDatabase \<Rightarrow> codeAnalysis \<Rightarrow> projectContext \<Rightarrow> intelligentFinding list" where
  "analyzeUserExperienceImprovements db codeAnalysis projectContext =
     (if js_less (density (patternOf codeAnalysis ''error_handling'')) 2
           \<and> present (patternOf codeAnalysis ''frontend'')
      then [\<lparr> category = ''ux'', impact = 6, effort = 3, finding_id = ''improve_error_handling'',
               providers = getRelevantProviders db ''ux'', finding_confidence = 7 / 10,
               intelligenceScore =
                 calculateIntelligenceScore codeAnalysis projectContext ''ux'' \<rparr>]
      else [])"

definition analyzeMonitoringImprovements ::
  "apiDatabase \<Rightarrow> codeAnalysis \<Rightarrow> projectContext \<Rightarrow> intelligentFinding list" where
  "analyzeMonitoringImprovements db codeAnalysis projectContext =
     (if \<not> present (patternOf codeAnalysis ''monitoring'')
           \<and> pc_audience projectContext = ''customers''
      then [\<lparr> category = ''analytics'', impact = 7, effort = 2, finding_id = ''add_analytics'',
               providers = getRelevantProviders db ''analytics'', finding_confidence = 8 / 10,
               intelligenceScore =
                 calculateIntelligenceScore codeAnalysis projectContext ''analytics'' \<rparr>]
      else [])"

definition generateFallbackRecommendations ::
  "apiDatabase \<Rightarrow> codeAnalysis \<Rightarrow> intelligentFinding list" where
  "generateFallbackRecommendations db codeAnalysis =
     (if 2000 < ca_totalLines codeAnalysis
      then [\<lparr> category = ''maintenance'', impact = 5, effort = 2,
               finding_id = ''improve_documentation'',
               providers = getRelevantProviders db ''documentation'', finding_confidence = 9 / 10,
               intelligenceScore = 60 \<rparr>]
      else [])
     @ (if 1000 < ca_totalLines codeAnalysis
        then [\<lparr> category = ''quality'', impact = 8, effort = 5, finding_id = ''add_testing'',
                 providers = getRelevantProviders db ''quality'', finding_confidence = 8 / 10,
                 intelligenceScore = 70 \<rparr>]
        else [])"

definition generateIntelligentRecommendations ::
  "apiDatabase \<Rightarrow> codeAnalysis \<Rightarrow> projectContext \<Rightarrow> intelligentFinding list" where
  "generateIntelligentRecommendations db codeAnalysis projectContext =
     (let improvementAreas =
            filter (\<lambda>arr. 0 < length arr)
              [analyzeDataStorageImprovements db codeAnalysis projectContext,
               analyzePerformanceImprovements db codeAnalysis projectContext,
               analyzeSecurityImprovements db codeAnalysis projectContext,
               analyzeUserExperienceImprovements db codeAnalysis projectContext,
               analyzeMonitoringImprovements db codeAnalysis projectContext];
          allRecommendations = concat improvementAreas
      in sort_key (\<lambda>r. - intelligenceScore r)
           (if length allRecommendations = 0
            then allRecommendations @ generateFallbackRecommendations db codeAnalysis
            else allRecommendations))"

record intelligentAnalysis =
  ia_codeAnalysis :: codeAnalysis
  ia_projectContext :: projectContext

text \<open>
  \<^verbatim>\<open>analyzeCodeIntelligently\<close>. No step of it throws: the reads are inside \<^verbatim>\<open>try\<close>, and
  what else it computes (the project summary, the marketplace, the report) is made of
  string operations on values that are always there.
\<close>

definition analyzeCodeIntelligently ::
  "apiDatabase \<Rightarrow> (string \<Rightarrow> string option) \<Rightarrow> string \<Rightarrow> 'a fileEntry_scheme list
     \<Rightarrow> (intelligentAnalysis, intelligentFinding) analysisResult" where
  "analyzeCodeIntelligently db readFileSync projectPath allFiles =
     (let codeAnalysis = performDeepCodeAnalysis readFileSync projectPath allFiles;
          projectContext = inferProjectContext codeAnalysis
      in \<lparr> analysis = \<lparr> ia_codeAnalysis = codeAnalysis, ia_projectContext = projectContext \<rparr>,
           suggestions = generateIntelligentRecommendations db codeAnalysis projectContext \<rparr>)"

text \<open>
  A project with two code files of which the first, \<^verbatim>\<open>/proj/locked.js\<close>, cannot be read
  (\<open>oneFile\<close> below has the content of \<^verbatim>\<open>/proj/app.js\<close> only), and a directory without
  any file.
\<close>

definition lockedJs :: fileRecord where
  "lockedJs = \<lparr> path = ''/locked.js'', ext = ''.js'', size_bytes = 512 \<rparr>"

definition appRecord :: fileRecord where
  "appRecord = \<lparr> path = ''/app.js'', ext = ''.js'', size_bytes = 29 \<rparr>"



text \<open>
  A project of one file \<^verbatim>\<open>/web/page.js\<close> with a route that sends the title of a
  document.
\<close>

definition pageJs :: fileEntry where
  "pageJs = \<lparr> path = ''/page.js'', ext = ''.js'' \<rparr>"

definition pageFile :: "string \<Rightarrow> string option" where
  "pageFile p = (if p = ''/web/page.js''
                 then Some ''app.get(route, (req, res) => res.send(document.title));''
                 else None)"

section \<open>The ranking of the specification\<close>

text \<open>
  The score of section 4.5 of the specification, written from its words for comparison
  with the keys of the rankers: \<^verbatim>\<open>impact*2 - effort + confidence*10 + contextFitBonus\<close>.
\<close>

definition spec_score :: "'a scoredFinding_scheme \<Rightarrow> rat \<Rightarrow> rat" where
  "spec_score f contextFitBonus = impact f * 2 - effort f + confidence f * 10 + contextFitBonus"

text \<open>
  \<open>ranked\<close> is \<open>generated\<close> in the order of the specification: the same findings, by
  falling key, and findings of one key in the order in which they were generated.
\<close>

definition rankedStably :: "('a \<Rightarrow> rat) \<Rightarrow> 'a list \<Rightarrow> 'a list \<Rightarrow> bool" where
  "rankedStably key generated ranked \<longleftrightarrow>
     mset ranked = mset generated
     \<and> sorted_wrt (\<lambda>a b. key b \<le> key a) ranked
     \<and> (\<forall>k. filter (\<lambda>x. key x = k) ranked = filter (\<lambda>x. key x = k) generated)"

text \<open>
  A project without a chatbot and of no recognised business type, for the ranker with ML
  scoring.
\<close>

definition plainPatterns :: mlPatterns where
  "plainPatterns = \<lparr> ml_hasRecommendations = False, ml_hasChatbot = False,
     ml_hasPersonalization = False, ml_hasAnalytics = False \<rparr>"

definition unknownContext :: mlContext where
  "unknownContext = \<lparr> ml_type = ''unknown'', ml_industry = ''general'', ml_scale = ''small'',
     monetization = ''unknown'' \<rparr>"

text \<open>
  A catalog with one entry, in the sections \<^verbatim>\<open>monitoring\<close> and (for \<open>twoSections\<close>)
  \<^verbatim>\<open>analytics\<close>, and a project of one file \<^verbatim>\<open>/proj/app.js\<close>.
\<close>

definition sentry :: catalogEntry where
  "sentry = \<lparr> name = ''Sentry'', company = ''Functional Software'', url = ''https://sentry.io'',
     description = ''Error tracking'', pricing = ''Gratis upp till 5K events'',
     business_impact = ''50% snabbare felsokning'', implementation_time = ''1 dag'',
     complexity = ''low'', roi = ''300% inom 6 manader'', use_cases = [''error tracking''],
     entry_category = ''monitoring'' \<rparr>"

definition monitoringOnly :: apiDatabase where
  "monitoringOnly = \<lparr> payments = [], authentication = [], analytics = [], communication = [],
      search = [], media_storage = [], monitoring = [sentry], ai_ml = [] \<rparr>"

definition twoSections :: apiDatabase where
  "twoSections = \<lparr> payments = [], authentication = [], analytics = [sentry],
      communication = [], search = [], media_storage = [], monitoring = [sentry], ai_ml = [] \<rparr>"

definition appJs :: fileEntry where
  "appJs = \<lparr> path = ''/app.js'', ext = ''.js'' \<rparr>"

definition oneFile :: "string \<Rightarrow> string option" where
  "oneFile p = (if p = ''/proj/app.js'' then Some ''const x = 1; console.log(x);'' else None)"

section \<open>Theorems: analyzer chain\<close>

text \<open>
  Claim C2. When the first analyzer (the replacement analyzer) throws and the second (the
  deep analyzer) returns, both chains return exactly the value the second analyzer
  returned: the result is that value whatever the first analyzer did before it threw, and
  the third, fourth and fifth analyzers are not consulted.
\<close>

theorem chain_returns_second_result:
  assumes "replacementAnalyzer A p s = Inl e"
      and "deepAnalyzer A p s = Inr r"
  shows "snd (uploadChain A p s) = Inr r \<and> snd (githubChain A p s) = Inr r"
  using assms by (simp add: uploadChain_def githubChain_def)

theorem chain_returns_second_result_witness:
  "replacementAnalyzer secondSucceeds () () = Inl ''catalog entry missing''
   \<and> deepAnalyzer secondSucceeds () () = Inr 7
   \<and> snd (uploadChain secondSucceeds () ()) = Inr 7
   \<and> snd (githubChain secondSucceeds () ()) = Inr 7"
  using chain_returns_second_result [of secondSucceeds "()" "()" "''catalog entry missing''" 7]
  by (simp add: secondSucceeds_def)

text \<open>
  Claim C3, as stated, fails: with five analyzers that throw \<open>e1\<close>, ..., \<open>e5\<close> the
  response of \<^verbatim>\<open>/upload\<close> carries \<open>e5\<close> alone.
\<close>

theorem upload_failure_last_error_only_counterexample:
  "surfacedErrors (snd (uploadRoute (Inr ()) (\<lambda>_. Inr ()) allThrow)) = [''e5'']
   \<and> ''e1'' \<notin> set (surfacedErrors (snd (uploadRoute (Inr ()) (\<lambda>_. Inr ()) allThrow)))"
  by (simp add: uploadRoute_def uploadChain_def allThrow_def)

text \<open>
  Claim C3, amended. When every analyzer of the chain throws, the response carries the
  message of the last analyzer tried (the basic analyzer) and no other; the messages of
  the four analyzers before it are written to the console, one line each, in the order of
  the attempts.
\<close>

theorem upload_failure_surfaces_last_error:
  assumes "replacementAnalyzer A p s = Inl e1"
      and "deepAnalyzer A p s = Inl e2"
      and "intelligentAnalyzer A p s = Inl e3"
      and "enhancedAnalyzer A p s = Inl e4"
      and "analyzer A p s = Inl e5"
  shows "uploadRoute (Inr p) (\<lambda>_. Inr s) A =
           ([''Advanced analyzer failed, trying deep: '' @ e1,
             ''Deep analyzer failed, trying intelligent: '' @ e2,
             ''Intelligent analyzer failed, trying enhanced: '' @ e3,
             ''Enhanced analyzer failed, using basic: '' @ e4],
            Json500 e5)
         \<and> surfacedErrors (snd (uploadRoute (Inr p) (\<lambda>_. Inr s) A)) = [e5]"
  using assms by (simp add: uploadRoute_def uploadChain_def)

theorem upload_failure_surfaces_last_error_witness:
  "replacementAnalyzer allThrow () () = Inl ''e1''
   \<and> deepAnalyzer allThrow () () = Inl ''e2''
   \<and> intelligentAnalyzer allThrow () () = Inl ''e3''
   \<and> enhancedAnalyzer allThrow () () = Inl ''e4''
   \<and> analyzer allThrow () () = Inl ''e5''
   \<and> snd (uploadRoute (Inr ()) (\<lambda>_. Inr ()) allThrow) = Json500 ''e5''"
  using upload_failure_surfaces_last_error
          [of allThrow "()" "()" "''e1''" "''e2''" "''e3''" "''e4''" "''e5''"]
  by (simp add: allThrow_def)

section \<open>Theorems: the directory walk\<close>



text \<open>With the \<^verbatim>\<open>try\<close> no exception leaves \<^verbatim>\<open>scan\<close>.\<close>

lemma scan_catches:
  "scan True n fs dir cur links ino st = Some r \<Longrightarrow> snd r = None"
  by (cases n) (auto split: sum.splits option.splits prod.splits)











section \<open>Theorems: CodeReplacementAnalyzer\<close>

text \<open>
  The keys of \<^verbatim>\<open>codebase.patterns\<close> are distinct categories of \<^verbatim>\<open>codePatterns\<close>, each
  with at least one match, and a category one of whose patterns matches a readable code
  file is among them.
\<close>

lemma pushMatch_map_fst:
  "map fst (pushMatch k v m) = (if k \<in> set (map fst m) then map fst m else map fst m @ [k])"
  by (induction k v m rule: pushMatch.induct) (simp_all split: if_splits)

lemma pushMatch_keys: "fst ` set (pushMatch k v m) = insert k (fst ` set m)"
proof -
  have "set (map fst (pushMatch k v m)) = insert k (set (map fst m))"
    by (auto simp: pushMatch_map_fst)
  then show ?thesis by simp
qed

lemma pushMatch_nonempty:
  "\<forall>e\<in>set m. snd e \<noteq> [] \<Longrightarrow> \<forall>e\<in>set (pushMatch k0 v m). snd e \<noteq> []"
  by (induction k0 v m rule: pushMatch.induct) (simp_all split: if_splits)

lemma scanPattern_keys_mono: "fst ` set m \<subseteq> fst ` set (scanPattern fp content cat m p)"
  by (auto simp: scanPattern_def pushMatch_keys Let_def)

lemma scanPattern_keys:
  "fst ` set (scanPattern fp content cat m p) \<subseteq> insert cat (fst ` set m)"
  by (auto simp: scanPattern_def pushMatch_keys Let_def)

lemma scanPattern_hit:
  "rx_test (code p) content \<Longrightarrow> cat \<in> fst ` set (scanPattern fp content cat m p)"
  by (simp add: scanPattern_def pushMatch_keys Let_def)

lemma foldl_scanPattern_mono:
  "fst ` set m \<subseteq> fst ` set (foldl (scanPattern fp content cat) m ps)"
proof (induction ps arbitrary: m)
  case Nil
  then show ?case by simp
next
  case (Cons p ps)
  have "fst ` set m \<subseteq> fst ` set (scanPattern fp content cat m p)"
    by (rule scanPattern_keys_mono)
  also have "\<dots> \<subseteq> fst ` set (foldl (scanPattern fp content cat) (scanPattern fp content cat m p) ps)"
    by (rule Cons.IH)
  finally show ?case by simp
qed

lemma foldl_scanPattern_hit:
  "p \<in> set ps \<Longrightarrow> rx_test (code p) content
     \<Longrightarrow> cat \<in> fst ` set (foldl (scanPattern fp content cat) m ps)"
proof (induction ps arbitrary: m)
  case Nil
  then show ?case by simp
next
  case (Cons q ps)
  show ?case
  proof (cases "p = q")
    case True
    with Cons.prems have "cat \<in> fst ` set (scanPattern fp content cat m q)"
      by (simp add: scanPattern_hit)
    with foldl_scanPattern_mono[of "scanPattern fp content cat m q" fp content cat ps]
    show ?thesis by auto
  next
    case False
    with Cons show ?thesis by simp
  qed
qed

lemma scanFile_mono: "fst ` set m \<subseteq> fst ` set (scanFile cps fp content m)"
proof (induction cps arbitrary: m)
  case Nil
  then show ?case by (simp add: scanFile_def)
next
  case (Cons c cps)
  obtain cat config where c: "c = (cat, config)" by (cases c)
  have "fst ` set m \<subseteq> fst ` set (foldl (scanPattern fp content cat) m (cfg_patterns config))"
    by (rule foldl_scanPattern_mono)
  also have "\<dots> \<subseteq> fst ` set (scanFile cps fp content
                 (foldl (scanPattern fp content cat) m (cfg_patterns config)))"
    by (rule Cons.IH)
  finally show ?case by (simp add: scanFile_def c)
qed

lemma scanFile_hit:
  "(cat, config) \<in> set cps \<Longrightarrow> p \<in> set (cfg_patterns config) \<Longrightarrow> rx_test (code p) content
     \<Longrightarrow> cat \<in> fst ` set (scanFile cps fp content m)"
proof (induction cps arbitrary: m)
  case Nil
  then show ?case by simp
next
  case (Cons c cps)
  obtain cat' config' where c: "c = (cat', config')" by (cases c)
  let ?m' = "foldl (scanPattern fp content cat') m (cfg_patterns config')"
  have unfold: "scanFile (c # cps) fp content m = scanFile cps fp content ?m'"
    by (simp add: scanFile_def c)
  show ?case
  proof (cases "(cat, config) = c")
    case True
    with c Cons.prems have "cat \<in> fst ` set ?m'"
      by (auto intro: foldl_scanPattern_hit)
    with scanFile_mono[of ?m' cps fp content] unfold show ?thesis by auto
  next
    case False
    with Cons.prems have "(cat, config) \<in> set cps" by simp
    from Cons.IH[OF this Cons.prems(2,3)] unfold show ?thesis by simp
  qed
qed


lemma scanPattern_distinct:
  "distinct (map fst m) \<Longrightarrow> distinct (map fst (scanPattern fp content cat m p))"
  by (simp add: scanPattern_def pushMatch_map_fst Let_def)

lemma scanPattern_nonempty:
  "\<forall>e\<in>set m. snd e \<noteq> [] \<Longrightarrow> \<forall>e\<in>set (scanPattern fp content cat m p). snd e \<noteq> []"
  using pushMatch_nonempty by (simp add: scanPattern_def Let_def)

lemma foldl_scanPattern_inv:
  "distinct (map fst m) \<and> (\<forall>e\<in>set m. snd e \<noteq> []) \<and> fst ` set m \<subseteq> K \<Longrightarrow> cat \<in> K \<Longrightarrow>
   distinct (map fst (foldl (scanPattern fp content cat) m ps))
   \<and> (\<forall>e\<in>set (foldl (scanPattern fp content cat) m ps). snd e \<noteq> [])
   \<and> fst ` set (foldl (scanPattern fp content cat) m ps) \<subseteq> K"
proof (induction ps arbitrary: m)
  case Nil
  then show ?case by simp
next
  case (Cons p ps)
  have "distinct (map fst (scanPattern fp content cat m p))
        \<and> (\<forall>e\<in>set (scanPattern fp content cat m p). snd e \<noteq> [])
        \<and> fst ` set (scanPattern fp content cat m p) \<subseteq> K"
    using Cons.prems scanPattern_distinct[of m fp content cat p]
      scanPattern_nonempty[of m fp content cat p] scanPattern_keys[of fp content cat m p]
    by blast
  from Cons.IH[OF this Cons.prems(2)] show ?case by simp
qed

lemma scanFile_inv:
  "distinct (map fst m) \<and> (\<forall>e\<in>set m. snd e \<noteq> []) \<and> fst ` set m \<subseteq> K \<Longrightarrow> fst ` set cps \<subseteq> K \<Longrightarrow>
   distinct (map fst (scanFile cps fp content m))
   \<and> (\<forall>e\<in>set (scanFile cps fp content m). snd e \<noteq> [])
   \<and> fst ` set (scanFile cps fp content m) \<subseteq> K"
proof (induction cps arbitrary: m)
  case Nil
  then show ?case by (simp add: scanFile_def)
next
  case (Cons c cps)
  obtain cat config where c: "c = (cat, config)" by (cases c)
  let ?m' = "foldl (scanPattern fp content cat) m (cfg_patterns config)"
  have unfold: "scanFile (c # cps) fp content m = scanFile cps fp content ?m'"
    by (simp add: scanFile_def c)
  from Cons.prems(2) c have "cat \<in> K" and rest: "fst ` set cps \<subseteq> K" by auto
  from foldl_scanPattern_inv[OF Cons.prems(1) \<open>cat \<in> K\<close>]
  have "distinct (map fst ?m') \<and> (\<forall>e\<in>set ?m'. snd e \<noteq> []) \<and> fst ` set ?m' \<subseteq> K" .
  from Cons.IH[OF this rest] unfold show ?case by simp
qed

lemma cb_patterns_scanCodebase:
  "cb_patterns (scanCodebase cps readFileSync projectPath fs)
     = foldl (scanStep cps readFileSync projectPath) [] fs"
  by (simp add: scanCodebase_def)

lemma scanStep_mono: "fst ` set m \<subseteq> fst ` set (scanStep cps rd pp m f)"
  using scanFile_mono by (auto simp: scanStep_def split: option.splits)

lemma scanStep_inv:
  "distinct (map fst m) \<and> (\<forall>e\<in>set m. snd e \<noteq> []) \<and> fst ` set m \<subseteq> fst ` set cps \<Longrightarrow>
   distinct (map fst (scanStep cps rd pp m f))
   \<and> (\<forall>e\<in>set (scanStep cps rd pp m f). snd e \<noteq> [])
   \<and> fst ` set (scanStep cps rd pp m f) \<subseteq> fst ` set cps"
  using scanFile_inv[of m "fst ` set cps" cps]
  by (simp add: scanStep_def split: option.splits)

lemma foldl_scanStep_mono: "fst ` set m \<subseteq> fst ` set (foldl (scanStep cps rd pp) m fs)"
proof (induction fs arbitrary: m)
  case Nil
  then show ?case by simp
next
  case (Cons f fs)
  have "fst ` set m \<subseteq> fst ` set (scanStep cps rd pp m f)" by (rule scanStep_mono)
  also have "\<dots> \<subseteq> fst ` set (foldl (scanStep cps rd pp) (scanStep cps rd pp m f) fs)"
    by (rule Cons.IH)
  finally show ?case by simp
qed

lemma foldl_scanStep_inv:
  "distinct (map fst m) \<and> (\<forall>e\<in>set m. snd e \<noteq> []) \<and> fst ` set m \<subseteq> fst ` set cps \<Longrightarrow>
   distinct (map fst (foldl (scanStep cps rd pp) m fs))
   \<and> (\<forall>e\<in>set (foldl (scanStep cps rd pp) m fs). snd e \<noteq> [])
   \<and> fst ` set (foldl (scanStep cps rd pp) m fs) \<subseteq> fst ` set cps"
proof (induction fs arbitrary: m)
  case Nil
  then show ?case by simp
next
  case (Cons f fs)
  from Cons.IH[OF scanStep_inv[OF Cons.prems]] show ?case by simp
qed

lemma foldl_scanStep_hit:
  assumes "f \<in> set fs" "replacement_isCodeFile (ext f)"
    "rd (path_join pp (path f)) = Some content"
    "(cat, config) \<in> set cps" "p \<in> set (cfg_patterns config)" "rx_test (code p) content"
  shows "cat \<in> fst ` set (foldl (scanStep cps rd pp) m fs)"
  using assms(1)
proof (induction fs arbitrary: m)
  case Nil
  then show ?case by simp
next
  case (Cons g fs)
  show ?case
  proof (cases "f = g")
    case True
    have "scanStep cps rd pp m g = scanFile cps (path f) content m"
      using True assms(2,3) by (simp add: scanStep_def)
    with scanFile_hit[OF assms(4,5,6), of "path f" m]
    have "cat \<in> fst ` set (scanStep cps rd pp m g)" by simp
    with foldl_scanStep_mono[of "scanStep cps rd pp m g" cps rd pp fs]
    show ?thesis by auto
  next
    case False
    with Cons.prems have "f \<in> set fs" by simp
    from Cons.IH[OF this] show ?thesis by simp
  qed
qed


lemma length_selectBestRecommendations:
  "length (selectBestRecommendations recs m0) = min 3 (length recs)"
  by (simp add: selectBestRecommendations_def)

lemma selectBestRecommendations_Nil:
  "selectBestRecommendations recs m0 = [] \<longleftrightarrow> recs = []"
  using length_selectBestRecommendations[of recs m0] by (cases recs) auto

lemma findReplacementOpportunities_ok:
  assumes "fst ` set m \<subseteq> fst ` set cps"
  shows "\<exists>opps. findReplacementOpportunities cps m = Inr opps
          \<and> map category opps = map fst (filter (\<lambda>e. snd e \<noteq> []) m)
          \<and> (\<forall>opp\<in>set opps. \<exists>cfg m0. map_of cps (category opp) = Some cfg
                 \<and> recommendations opp = selectBestRecommendations (cfg_recommendations cfg) m0)
          \<and> (\<forall>opp\<in>set opps. 0 \<le> impact opp \<and> impact opp \<le> 10
                 \<and> 0 \<le> effort opp \<and> effort opp \<le> 10)"
  using assms
proof (induction m)
  case Nil
  then show ?case by simp
next
  case (Cons e m)
  obtain cat matches where e: "e = (cat, matches)" by (cases e)
  from Cons.prems have sub: "fst ` set m \<subseteq> fst ` set cps" by auto
  from Cons.IH[OF sub] obtain opps where
    o1: "findReplacementOpportunities cps m = Inr opps"
    and o2: "map category opps = map fst (filter (\<lambda>e. snd e \<noteq> []) m)"
    and o3: "\<forall>opp\<in>set opps. \<exists>cfg m0. map_of cps (category opp) = Some cfg
                 \<and> recommendations opp = selectBestRecommendations (cfg_recommendations cfg) m0"
    and o4: "\<forall>opp\<in>set opps. 0 \<le> impact opp \<and> impact opp \<le> 10
                 \<and> 0 \<le> effort opp \<and> effort opp \<le> 10"
    by blast
  show ?case
  proof (cases matches)
    case Nil
    with e o1 o2 o3 o4 show ?thesis by simp
  next
    case (Cons m0 ms)
    from Cons.prems e have "cat \<in> fst ` set cps" by simp
    then obtain cfg where cfg: "map_of cps cat = Some cfg"
      by (metis domD dom_map_of_conv_image_fst)
    have i1: "calculateCategoryImpact cat (length matches) \<le> 10"
      unfolding calculateCategoryImpact_def
      by (metis min.cobounded1 of_nat_le_iff of_nat_numeral)
    have e1: "estimateReplacementEffort cat (length matches) \<le> 10"
      unfolding estimateReplacementEffort_def
      by (metis min.cobounded1 of_nat_le_iff of_nat_numeral)
    have i0: "0 \<le> calculateCategoryImpact cat (length matches)"
      unfolding calculateCategoryImpact_def by simp
    have e0: "0 \<le> estimateReplacementEffort cat (length matches)"
      unfolding estimateReplacementEffort_def by simp
    from e Cons cfg o1 o2 o3 o4 i1 e1 i0 e0 show ?thesis
      by auto
  qed
qed

lemma toSuggestions_ok:
  assumes "\<forall>opp\<in>set opps. recommendations opp \<noteq> []"
  shows "\<exists>ss. toSuggestions i opps = Inr ss
          \<and> map category ss = map category opps
          \<and> map impact ss = map impact opps
          \<and> map effort ss = map effort opps
          \<and> map providers ss = map recommendations opps"
  using assms
proof (induction opps arbitrary: i)
  case Nil
  then show ?case by simp
next
  case (Cons opp opps)
  from Cons.prems obtain r rs where r: "recommendations opp = r # rs"
    by (cases "recommendations opp") auto
  from Cons.prems have "\<forall>opp\<in>set opps. recommendations opp \<noteq> []" by simp
  from Cons.IH[OF this, of "i + 1"] obtain ss where
    "toSuggestions (i + 1) opps = Inr ss" "map category ss = map category opps"
    "map impact ss = map impact opps" "map effort ss = map effort opps"
    "map providers ss = map recommendations opps"
    by blast
  with r show ?case by simp
qed

lemma toSuggestions_fail:
  "opp \<in> set opps \<Longrightarrow> recommendations opp = [] \<Longrightarrow> toSuggestions i opps = Inl TypeError"
proof (induction opps arbitrary: i)
  case Nil
  then show ?case by simp
next
  case (Cons a opps)
  then show ?case
    by (cases "recommendations a"; cases "a = opp") (auto split: sum.splits error.splits)
qed

lemma monitoring_config:
  "\<exists>config p. (''monitoring'', config) \<in> set (buildCodePatterns db) \<and> p \<in> set (cfg_patterns config)
      \<and> code p = lits ''function'' [''const'', ''let'', ''var'', ''=>'']"
  unfolding buildCodePatterns_def
  by (intro exI[of _ "\<lparr>cfg_patterns = _, cfg_recommendations = monitoring db\<rparr>"]) 
     (fastforce)

text \<open>
  Claim C10, as stated, fails. With a catalog whose section \<^verbatim>\<open>monitoring\<close> has an
  entry and whose section \<^verbatim>\<open>analytics\<close> is empty, the file
  \<^verbatim>\<open>const x = 1; console.log(x);\<close> matches the last pattern of \<^verbatim>\<open>monitoring\<close> and the
  first of \<^verbatim>\<open>analytics\<close>; the opportunity for \<^verbatim>\<open>analytics\<close> has no recommendation,
  \<^verbatim>\<open>prioritizeRecommendations\<close> throws on it, and there are no suggestions at all.
\<close>

theorem monitoring_finding_lost_counterexample:
  "monitoring monitoringOnly \<noteq> []
   \<and> appJs \<in> set [appJs]
   \<and> replacement_isCodeFile (ext appJs)
   \<and> oneFile (path_join ''/proj'' (path appJs)) = Some ''const x = 1; console.log(x);''
   \<and> rx_test (lits ''function'' [''const'', ''let'', ''var'', ''=>''])
         ''const x = 1; console.log(x);''
   \<and> analyzeCodeForReplacements monitoringOnly oneFile ''/proj'' [appJs] = Inl TypeError"
proof -
  have h0: "monitoring monitoringOnly \<noteq> []" by (simp add: monitoringOnly_def)
  have h1: "appJs \<in> set [appJs]" by simp
  have h2: "replacement_isCodeFile (ext appJs)" by code_simp
  have h3: "oneFile (path_join ''/proj'' (path appJs)) = Some ''const x = 1; console.log(x);''"
    by code_simp
  have h4: "rx_test (lits ''function'' [''const'', ''let'', ''var'', ''=>''])
              ''const x = 1; console.log(x);''"
    by code_simp
  have h5: "analyzeCodeForReplacements monitoringOnly oneFile ''/proj'' [appJs] = Inl TypeError"
    by code_simp
  from h0 h1 h2 h3 h4 h5 show ?thesis by blast
qed

text \<open>
  Claim C10, amended. For every list of files that contains a code file (by its
  extension) which can be read and whose content matches
  \<^verbatim>\<open>/function|const|let|var|=>/i\<close>, and given a catalog in which the section of every
  category matched in the project is non-empty (the section \<^verbatim>\<open>monitoring\<close> is one of
  them), \<^verbatim>\<open>analyzeCodeForReplacements\<close> returns, and its suggestions include a finding
  of category \<^verbatim>\<open>monitoring\<close>.
\<close>

theorem replacement_reports_monitoring:
  assumes "f \<in> set allFiles"
      and "replacement_isCodeFile (ext f)"
      and "readFileSync (path_join projectPath (path f)) = Some content"
      and "rx_test (lits ''function'' [''const'', ''let'', ''var'', ''=>'']) content"
      and cover: "\<forall>cat\<in>fst ` set (cb_patterns
                     (scanCodebase (buildCodePatterns db) readFileSync projectPath allFiles)).
                   \<forall>cfg. map_of (buildCodePatterns db) cat = Some cfg
                     \<longrightarrow> cfg_recommendations cfg \<noteq> []"
  shows "\<exists>result. analyzeCodeForReplacements db readFileSync projectPath allFiles = Inr result
           \<and> ''monitoring'' \<in> category ` set (suggestions result)"
proof -
  let ?cps = "buildCodePatterns db"
  let ?m = "cb_patterns (scanCodebase ?cps readFileSync projectPath allFiles)"
  have m: "?m = foldl (scanStep ?cps readFileSync projectPath) [] allFiles"
    by (rule cb_patterns_scanCodebase)
  have inv: "distinct (map fst ?m) \<and> (\<forall>e\<in>set ?m. snd e \<noteq> []) \<and> fst ` set ?m \<subseteq> fst ` set ?cps"
    unfolding m by (rule foldl_scanStep_inv) simp
  obtain config p where cp: "(''monitoring'', config) \<in> set ?cps" "p \<in> set (cfg_patterns config)"
    "code p = lits ''function'' [''const'', ''let'', ''var'', ''=>'']"
    using monitoring_config by blast
  have hit: "''monitoring'' \<in> fst ` set ?m"
    unfolding m using assms(1-3) cp(1,2) assms(4) cp(3)
    by (intro foldl_scanStep_hit[where f=f and content=content and config=config and p=p]) simp_all
  from findReplacementOpportunities_ok[of ?m ?cps] inv obtain opps where
    o1: "findReplacementOpportunities ?cps ?m = Inr opps"
    and o2: "map category opps = map fst (filter (\<lambda>e. snd e \<noteq> []) ?m)"
    and o3: "\<forall>opp\<in>set opps. \<exists>cfg m0. map_of ?cps (category opp) = Some cfg
                 \<and> recommendations opp = selectBestRecommendations (cfg_recommendations cfg) m0"
    by blast
  have flt: "filter (\<lambda>e. snd e \<noteq> []) ?m = ?m" using inv by (simp add: filter_id_conv)
  have cats: "category ` set opps = fst ` set ?m"
  proof -
    have "set (map category opps) = set (map fst ?m)" using o2 flt by simp
    then show ?thesis by simp
  qed
  have recs: "\<forall>opp\<in>set opps. recommendations opp \<noteq> []"
  proof
    fix opp assume opp: "opp \<in> set opps"
    with o3 obtain cfg m0 where c: "map_of ?cps (category opp) = Some cfg"
      and r: "recommendations opp = selectBestRecommendations (cfg_recommendations cfg) m0"
      by blast
    from opp cats have "category opp \<in> fst ` set ?m" by blast
    with cover c have "cfg_recommendations cfg \<noteq> []" by blast
    with r show "recommendations opp \<noteq> []" by (simp add: selectBestRecommendations_Nil)
  qed
  let ?sorted = "sort_key (\<lambda>opp. - (impact opp * 10 - effort opp)) opps"
  from recs have "\<forall>opp\<in>set ?sorted. recommendations opp \<noteq> []" by simp
  from toSuggestions_ok[OF this, of 0] obtain ss where
    s1: "toSuggestions 0 ?sorted = Inr ss" and s2: "map category ss = map category ?sorted"
    by blast
  have "set (map category ss) = category ` set opps" using s2 by simp
  then have "category ` set ss = fst ` set ?m" using cats by simp
  with hit have mon: "''monitoring'' \<in> category ` set ss" by simp
  have "analyzeCodeForReplacements db readFileSync projectPath allFiles =
          Inr \<lparr> analysis = \<lparr> replacementOpportunities = length opps,
                               files = cb_files (scanCodebase ?cps readFileSync projectPath allFiles) \<rparr>,
                suggestions = ss \<rparr>"
    using o1 s1 by (simp add: analyzeCodeForReplacements_def prioritizeRecommendations_def Let_def)
  with mon show ?thesis by simp
qed

theorem replacement_reports_monitoring_witness:
  "appJs \<in> set [appJs]
   \<and> replacement_isCodeFile (ext appJs)
   \<and> oneFile (path_join ''/proj'' (path appJs)) = Some ''const x = 1; console.log(x);''
   \<and> rx_test (lits ''function'' [''const'', ''let'', ''var'', ''=>''])
         ''const x = 1; console.log(x);''
   \<and> (\<exists>result. analyzeCodeForReplacements twoSections oneFile ''/proj'' [appJs] = Inr result
          \<and> ''monitoring'' \<in> category ` set (suggestions result))"
proof -
  have h1: "appJs \<in> set [appJs]" by simp
  have h2: "replacement_isCodeFile (ext appJs)" by code_simp
  have h3: "oneFile (path_join ''/proj'' (path appJs)) = Some ''const x = 1; console.log(x);''"
    by code_simp
  have h4: "rx_test (lits ''function'' [''const'', ''let'', ''var'', ''=>''])
              ''const x = 1; console.log(x);''"
    by code_simp
  have keys: "map fst (cb_patterns
                (scanCodebase (buildCodePatterns twoSections) oneFile ''/proj'' [appJs]))
              = [''analytics'', ''monitoring'']"
    by code_simp
  have "set (map fst (cb_patterns
                (scanCodebase (buildCodePatterns twoSections) oneFile ''/proj'' [appJs])))
          = {''analytics'', ''monitoring''}"
    unfolding keys by simp
  then have keyset: "fst ` set (cb_patterns
                (scanCodebase (buildCodePatterns twoSections) oneFile ''/proj'' [appJs]))
          = {''analytics'', ''monitoring''}"
    by simp
  have h5: "\<forall>cat\<in>fst ` set (cb_patterns
                (scanCodebase (buildCodePatterns twoSections) oneFile ''/proj'' [appJs])).
             \<forall>cfg. map_of (buildCodePatterns twoSections) cat = Some cfg
               \<longrightarrow> cfg_recommendations cfg \<noteq> []"
    unfolding keyset by (auto simp: buildCodePatterns_def twoSections_def)
  from replacement_reports_monitoring [OF h1 h2 h3 h4 h5] h1 h2 h3 h4
  show ?thesis by blast
qed

section \<open>Theorems: the rankers\<close>

text \<open>Sorting by the negated key is the ranking of the specification.\<close>

lemma rankedStably_sort_key: "rankedStably key xs (sort_key (\<lambda>x. - key x) xs)"
proof -
  have "sorted (map (\<lambda>x. - key x) (sort_key (\<lambda>x. - key x) xs))"
    by (rule sorted_sort_key)
  then have s: "sorted_wrt (\<lambda>a b. key b \<le> key a) (sort_key (\<lambda>x. - key x) xs)"
    by (simp add: sorted_map)
  have f: "filter (\<lambda>x. key x = k) (sort_key (\<lambda>x. - key x) xs) = filter (\<lambda>x. key x = k) xs" for k
    using sort_key_stable[of "\<lambda>x. - key x" "- k" xs] by simp
  show ?thesis unfolding rankedStably_def using s f by simp
qed

lemma sorted_wrt_take: "sorted_wrt R xs \<Longrightarrow> sorted_wrt R (take n xs)"
  by (metis append_take_drop_id sorted_wrt_append)

text \<open>
  Claim C1, as stated, fails. For a project without a chatbot and of no recognised
  business type, \<^verbatim>\<open>rankWithMLScoring\<close> orders the chatbot finding (impact 9, effort 4,
  confidence 0.95) by the key 25.5; the score of the specification with no bonus is
  23.5, and the difference of 2 is no bonus of the specification. The ranker of the
  simple \<^verbatim>\<open>EnhancedAnalyzer\<close> gives the same finding the key 13.3.
\<close>

theorem ranker_key_is_not_spec_score_counterexample:
  "map finding_id (rankWithMLScoring
       (generateEnhancedSuggestions_ml plainPatterns unknownContext []) unknownContext)
     = [''ai-chatbot-advanced'', ''ai-search-engine'']
   \<and> map score (rankWithMLScoring
       (generateEnhancedSuggestions_ml plainPatterns unknownContext []) unknownContext)
     = [51 / 2, 22]
   \<and> spec_score (hd (rankWithMLScoring
       (generateEnhancedSuggestions_ml plainPatterns unknownContext []) unknownContext)) 0
     = 47 / 2
   \<and> score (hd (rankSuggestions
       (generateEnhancedSuggestions_ml plainPatterns unknownContext []))) = 133 / 10"
proof -
  have a: "map finding_id (rankWithMLScoring
       (generateEnhancedSuggestions_ml plainPatterns unknownContext []) unknownContext)
     = [''ai-chatbot-advanced'', ''ai-search-engine'']"
    by code_simp
  have b: "map score (rankWithMLScoring
       (generateEnhancedSuggestions_ml plainPatterns unknownContext []) unknownContext)
     = [51 / 2, 22]"
    by code_simp
  have c: "spec_score (hd (rankWithMLScoring
       (generateEnhancedSuggestions_ml plainPatterns unknownContext []) unknownContext)) 0
     = 47 / 2"
    by code_simp
  have d: "score (hd (rankSuggestions
       (generateEnhancedSuggestions_ml plainPatterns unknownContext []))) = 133 / 10"
    by code_simp
  from a b c d show ?thesis by blast
qed

text \<open>
  Claim C1, amended. Each ranker orders by a key of its own, and the list it returns is
  by falling key. For every list of findings, the key of \<^verbatim>\<open>rankWithMLScoring\<close> is
  \<^verbatim>\<open>impact*2 - effort*0.5 + confidence*10 + bonus\<close> rounded to one decimal, where the
  bonus is 5 when the context type is \<^verbatim>\<open>ecommerce\<close> and the category contains
  \<^verbatim>\<open>business\<close> or the id contains \<^verbatim>\<open>personalization\<close>, 3 when the context type is
  \<^verbatim>\<open>saas\<close> and the category contains \<^verbatim>\<open>ai\<close> or the id contains \<^verbatim>\<open>analytics\<close>, and 0
  otherwise; the key of \<^verbatim>\<open>rankSuggestions\<close> of the simple \<^verbatim>\<open>EnhancedAnalyzer\<close> is
  \<^verbatim>\<open>(impact*2 - effort) * confidence\<close>; the key of \<^verbatim>\<open>rankSuggestions\<close> of
  \<^verbatim>\<open>CodeAnalyzer\<close> is \<^verbatim>\<open>(impact*2 - effort) / estimatedHours * 10\<close>. The last two have
  no bonus for the business context.
\<close>

theorem rankers_order_by_their_own_scores:
  "map score (rankWithMLScoring ss bc) =
     map (\<lambda>r. js_round ((impact r * 2 - effort r * (1 / 2) + confidence r * 10
                          + getBusinessContextBonus r bc) * 10) / 10)
         (rankWithMLScoring ss bc)
   \<and> sorted_wrt (\<lambda>a b. score b \<le> score a) (rankWithMLScoring ss bc)
   \<and> getBusinessContextBonus f bc =
       (if ml_type bc = ''ecommerce''
           \<and> (str_includes (category f) ''business''
                \<or> str_includes (finding_id f) ''personalization'')
        then 5
        else if ml_type bc = ''saas''
                \<and> (str_includes (category f) ''ai'' \<or> str_includes (finding_id f) ''analytics'')
        then 3 else 0)
   \<and> map score (rankSuggestions ss) =
       map (\<lambda>r. (impact r * 2 - effort r) * confidence r) (rankSuggestions ss)
   \<and> sorted_wrt (\<lambda>a b. score b \<le> score a) (rankSuggestions ss)
   \<and> map hourly_score (rankSuggestions_basic bs) =
       map (\<lambda>r. (impact r * 2 - effort r) / estimatedHours r * 10) (rankSuggestions_basic bs)
   \<and> sorted_wrt (\<lambda>a b. hourly_score b \<le> hourly_score a) (rankSuggestions_basic bs)"
proof (intro conjI)
  show "map score (rankWithMLScoring ss bc) =
     map (\<lambda>r. js_round ((impact r * 2 - effort r * (1 / 2) + confidence r * 10
                          + getBusinessContextBonus r bc) * 10) / 10)
         (rankWithMLScoring ss bc)"
    by (rule map_cong[OF refl])
       (auto simp: rankWithMLScoring_def scoreWithML_def mlScore_def Let_def
          scoredFinding.extend_def getBusinessContextBonus_def)
  show "sorted_wrt (\<lambda>a b. score b \<le> score a) (rankWithMLScoring ss bc)"
    using rankedStably_sort_key[of score "map (scoreWithML bc) ss"]
    by (simp add: rankedStably_def rankWithMLScoring_def)
  show "getBusinessContextBonus f bc =
       (if ml_type bc = ''ecommerce''
           \<and> (str_includes (category f) ''business''
                \<or> str_includes (finding_id f) ''personalization'')
        then 5
        else if ml_type bc = ''saas''
                \<and> (str_includes (category f) ''ai'' \<or> str_includes (finding_id f) ''analytics'')
        then 3 else 0)"
    by (simp add: getBusinessContextBonus_def)
  show "map score (rankSuggestions ss) =
       map (\<lambda>r. (impact r * 2 - effort r) * confidence r) (rankSuggestions ss)"
    by (rule map_cong[OF refl])
       (auto simp: rankSuggestions_def scoreSuggestion_def scoredFinding.extend_def)
  show "sorted_wrt (\<lambda>a b. score b \<le> score a) (rankSuggestions ss)"
    using rankedStably_sort_key[of score "map scoreSuggestion ss"]
    by (simp add: rankedStably_def rankSuggestions_def)
  show "map hourly_score (rankSuggestions_basic bs) =
       map (\<lambda>r. (impact r * 2 - effort r) / estimatedHours r * 10) (rankSuggestions_basic bs)"
    by (rule map_cong[OF refl])
       (auto simp: rankSuggestions_basic_def scoreSuggestion_basic_def basicSuggestion.extend_def
             dest!: in_set_takeD)
  show "sorted_wrt (\<lambda>a b. hourly_score b \<le> hourly_score a) (rankSuggestions_basic bs)"
    using rankedStably_sort_key[of hourly_score "map scoreSuggestion_basic bs"]
    by (simp add: rankedStably_def rankSuggestions_basic_def sorted_wrt_take)
qed

theorem rankers_order_by_their_own_scores_witness:
  "map score (rankWithMLScoring
       (generateEnhancedSuggestions_ml plainPatterns unknownContext []) unknownContext)
     = [51 / 2, 22]
   \<and> map (\<lambda>r. js_round ((impact r * 2 - effort r * (1 / 2) + confidence r * 10
                          + getBusinessContextBonus r unknownContext) * 10) / 10)
         (rankWithMLScoring
            (generateEnhancedSuggestions_ml plainPatterns unknownContext []) unknownContext)
     = [51 / 2, 22]"
proof -
  have b: "map score (rankWithMLScoring
       (generateEnhancedSuggestions_ml plainPatterns unknownContext []) unknownContext)
     = [51 / 2, 22]"
    by code_simp
  from rankers_order_by_their_own_scores
         [of "generateEnhancedSuggestions_ml plainPatterns unknownContext []" unknownContext
             "hd (generateEnhancedSuggestions_ml plainPatterns unknownContext [])" "[]"] b
  show ?thesis by simp
qed

section \<open>Theorems: categories and ids of the findings\<close>

text \<open>
  \<^verbatim>\<open>detectAdvancedPatterns\<close> of the simple \<^verbatim>\<open>EnhancedAnalyzer\<close> never sets these five
  flags, so the findings that depend on them are generated for every project.
\<close>

lemma detect_never_set:
  "\<not> hasChatbot (detectAdvancedPatterns rd pp fs)"
  "\<not> hasSearch (detectAdvancedPatterns rd pp fs)"
  "\<not> hasRecommendations (detectAdvancedPatterns rd pp fs)"
  "\<not> hasCheckout (detectAdvancedPatterns rd pp fs)"
  "\<not> hasAuth (detectAdvancedPatterns rd pp fs)"
  by (simp_all add: detectAdvancedPatterns_def Let_def noPatterns_def)

text \<open>The generator appends at most one finding for each of its seven rules.\<close>

lemma if_single_length: "length (if c then [x] else []) \<le> Suc 0"
  by simp

lemma length_generateEnhancedSuggestions:
  "length (generateEnhancedSuggestions db pat bc) \<le> 7"
proof -
  have h: "\<And>(a::nat) b c d e f g. a \<le> Suc 0 \<Longrightarrow> b \<le> Suc 0 \<Longrightarrow> c \<le> Suc 0 \<Longrightarrow> d \<le> Suc 0
          \<Longrightarrow> e \<le> Suc 0 \<Longrightarrow> f \<le> Suc 0 \<Longrightarrow> g \<le> Suc 0 \<Longrightarrow> a + (b + (c + (d + (e + (f + g))))) \<le> 7"
    by arith
  show ?thesis
    unfolding generateEnhancedSuggestions_def length_append
    by (rule h) (rule if_single_length)+
qed

lemma subseq_distinct: "subseq xs ys \<Longrightarrow> distinct ys \<Longrightarrow> distinct xs"
proof (induction rule: list_emb.induct)
  case (list_emb_Nil ys)
  then show ?case by simp
next
  case (list_emb_Cons xs ys y)
  then show ?case by simp
next
  case (list_emb_Cons2 x y xs ys)
  then have "x \<notin> set xs" using list_emb_set[of "(=)" xs ys x] by auto
  with list_emb_Cons2 show ?case by simp
qed

lemma subseq7:
  fixes a :: "string list"
  assumes "subseq a [a']" "subseq b [b']" "subseq c [c']" "subseq d [d']" "subseq e [e']"
      "subseq f [f']" "subseq g [g']"
  shows "subseq (a @ b @ c @ d @ e @ f @ g) [a', b', c', d', e', f', g']"
proof -
  have "subseq (a @ b @ c @ d @ e @ f @ g) ([a'] @ [b'] @ [c'] @ [d'] @ [e'] @ [f'] @ [g'])"
    by (intro list_emb_append_mono assms)
  then show ?thesis by simp
qed

lemma ids_generateEnhancedSuggestions:
  "subseq (map finding_id (generateEnhancedSuggestions db pat bc))
     [''ai-chatbot'', ''database-optimization'', ''auth-improvement'', ''personalization'',
      ''reporting-system'', ''advanced-search'', ''payment-optimization'']"
  unfolding generateEnhancedSuggestions_def map_append
  by (rule subseq7) simp_all

lemma distinct_ids_generateEnhancedSuggestions:
  "distinct (map finding_id (generateEnhancedSuggestions db pat bc))"
  by (rule subseq_distinct[OF ids_generateEnhancedSuggestions]) simp

lemma finding_id_scoreSuggestion: "finding_id (scoreSuggestion s) = finding_id s"
  by (simp add: scoreSuggestion_def scoredFinding.extend_def)

lemma distinct_ids_rankSuggestions:
  "distinct (map finding_id (rankSuggestions (generateEnhancedSuggestions db pat bc)))"
proof -
  let ?gen = "generateEnhancedSuggestions db pat bc"
  have "mset (map finding_id (rankSuggestions ?gen)) = mset (map finding_id (map scoreSuggestion ?gen))"
    by (simp add: rankSuggestions_def multiset.map_comp)
  also have "map finding_id (map scoreSuggestion ?gen) = map finding_id ?gen"
    by (simp add: finding_id_scoreSuggestion)
  finally have "mset (map finding_id (rankSuggestions ?gen)) = mset (map finding_id ?gen)" .
  from mset_eq_imp_distinct_iff[OF this] distinct_ids_generateEnhancedSuggestions
  show ?thesis by simp
qed

text \<open>
  \<^verbatim>\<open>prioritizeRecommendations\<close> maps the sorted opportunities one by one: each suggestion
  has the category, impact and effort of its opportunity.
\<close>

lemma toSuggestions_rel:
  "toSuggestions i opps = Inr ss \<Longrightarrow>
     list_all2 (\<lambda>s opp. category s = category opp \<and> impact s = impact opp \<and> effort s = effort opp
                  \<and> providers s = recommendations opp
                  \<and> finding_id s = ''replacement_'' @ category opp) ss opps"
proof (induction opps arbitrary: i ss)
  case Nil
  then show ?case by simp
next
  case (Cons opp opps)
  from Cons.prems obtain rest where r: "toSuggestions (i + 1) opps = Inr rest"
    and ss: "ss = \<lparr> category = category opp, impact = impact opp, effort = effort opp,
                    finding_id = ''replacement_'' @ category opp,
                    providers = recommendations opp,
                    priority = i + 1,
                    affectedFiles = opp_affectedFiles opp \<rparr> # rest"
    by (auto split: list.splits sum.splits)
  from Cons.IH[OF r] ss show ?case by simp
qed

lemma list_all2_map_eq:
  "list_all2 R xs ys \<Longrightarrow> (\<And>x y. R x y \<Longrightarrow> f x = g y) \<Longrightarrow> map f xs = map g ys"
  by (induction rule: list_all2_induct) auto

lemma list_all2_filter_map_eq:
  "list_all2 R xs ys \<Longrightarrow> (\<And>x y. R x y \<Longrightarrow> P x = Q y \<and> f x = g y)
     \<Longrightarrow> map f (filter P xs) = map g (filter Q ys)"
  by (induction rule: list_all2_induct) auto

text \<open>There are seven categories of code patterns.\<close>

lemma length_distinct_categories:
  assumes "distinct ks" "set ks \<subseteq> fst ` set (buildCodePatterns db)"
  shows "length ks \<le> 7"
proof -
  have "length ks = card (set ks)" using assms(1) by (simp add: distinct_card)
  also have "\<dots> \<le> card (fst ` set (buildCodePatterns db))"
    by (rule card_mono) (use assms(2) in auto)
  also have "\<dots> \<le> card (set (buildCodePatterns db))" by (rule card_image_le) simp
  also have "\<dots> \<le> length (buildCodePatterns db)" by (rule card_length)
  also have "\<dots> = 7" by (simp add: buildCodePatterns_def)
  finally show ?thesis .
qed

text \<open>What a successful run of the replacement analyzer returns.\<close>

lemma replacement_run:
  assumes "analyzeCodeForReplacements db rd pp fs = Inr res"
  shows "\<exists>opps. findReplacementOpportunities (buildCodePatterns db)
                  (cb_patterns (scanCodebase (buildCodePatterns db) rd pp fs)) = Inr opps
           \<and> distinct (map category opps)
           \<and> length opps \<le> 7
           \<and> list_all2 (\<lambda>s opp. category s = category opp \<and> impact s = impact opp
                          \<and> effort s = effort opp \<and> providers s = recommendations opp
                          \<and> finding_id s = ''replacement_'' @ category opp)
               (suggestions res) (sort_key (\<lambda>opp. - (impact opp * 10 - effort opp)) opps)"
proof -
  let ?cps = "buildCodePatterns db"
  let ?m = "cb_patterns (scanCodebase ?cps rd pp fs)"
  have m: "?m = foldl (scanStep ?cps rd pp) [] fs" by (rule cb_patterns_scanCodebase)
  have inv: "distinct (map fst ?m) \<and> (\<forall>e\<in>set ?m. snd e \<noteq> []) \<and> fst ` set ?m \<subseteq> fst ` set ?cps"
    unfolding m by (rule foldl_scanStep_inv) simp
  from findReplacementOpportunities_ok[of ?m ?cps] inv obtain opps where
    o1: "findReplacementOpportunities ?cps ?m = Inr opps"
    and o2: "map category opps = map fst (filter (\<lambda>e. snd e \<noteq> []) ?m)"
    by blast
  have flt: "filter (\<lambda>e. snd e \<noteq> []) ?m = ?m" using inv by (simp add: filter_id_conv)
  have d: "distinct (map category opps)" using o2 flt inv by simp
  have "set (map category opps) \<subseteq> fst ` set ?cps" using o2 flt inv by simp
  from length_distinct_categories[OF d this] have l: "length opps \<le> 7" by simp
  from assms o1 obtain ss where
    s1: "toSuggestions 0 (sort_key (\<lambda>opp. - (impact opp * 10 - effort opp)) opps) = Inr ss"
    and s2: "suggestions res = ss"
    by (auto simp: analyzeCodeForReplacements_def prioritizeRecommendations_def Let_def
             split: sum.splits)
  from toSuggestions_rel[OF s1] s2 o1 d l show ?thesis by blast
qed

text \<open>The shop is recognised as e-commerce.\<close>

lemma shop_context:
  "inferBusinessContext shopFile ''/shop'' [shopJs] shopPackage
     = defaultContext \<lparr> context_type := ''ecommerce'', audience := ''customer'', purpose := ''sales'' \<rparr>"
proof -
  have c1: "readableContents [''.js'', ''.ts'', ''.py''] shopFile ''/shop'' [shopJs]
              = [''// shop: cart, product, payment, order, customer'']" by code_simp
  have c2: "rx_count (lits ''shop'' [''cart'', ''product'', ''payment'', ''order'', ''customer'', ''buy'', ''sell''])
              ''// shop: cart, product, payment, order, customer '' = 6" by code_simp
  have c3: "str_includes ''stripe'' ''stripe''" by code_simp
  show ?thesis unfolding inferBusinessContext_def shopPackage_def
    by (simp add: Let_def c1 c2 c3 del: lits.simps)
qed

lemma distinct_map_prefix: "distinct (map f xs) \<Longrightarrow> distinct (map (\<lambda>x. p @ f x) xs)"
  by (simp add: distinct_map inj_on_def)

text \<open>
  Claim C6, as stated, fails. For the shop the simple \<^verbatim>\<open>EnhancedAnalyzer\<close> returns four
  findings, and two of them, \<^verbatim>\<open>ai-chatbot\<close> and \<^verbatim>\<open>advanced-search\<close>, have the category
  \<^verbatim>\<open>ai-ux\<close>.
\<close>

theorem enhanced_categories_repeat_counterexample:
  "map finding_id (suggestions (analyzeProjectAdvanced twoSections shopFile ''/shop'' [shopJs] shopPackage))
     = [''payment-optimization'', ''ai-chatbot'', ''personalization'', ''advanced-search'']
   \<and> map category (suggestions (analyzeProjectAdvanced twoSections shopFile ''/shop'' [shopJs] shopPackage))
     = [''business'', ''ai-ux'', ''ai-business'', ''ai-ux'']
   \<and> \<not> distinct (map category
           (suggestions (analyzeProjectAdvanced twoSections shopFile ''/shop'' [shopJs] shopPackage)))"
proof -
  have a: "map finding_id (suggestions (analyzeProjectAdvanced twoSections shopFile ''/shop'' [shopJs] shopPackage))
     = [''payment-optimization'', ''ai-chatbot'', ''personalization'', ''advanced-search'']"
    by (simp add: analyzeProjectAdvanced_def Let_def rankSuggestions_def generateEnhancedSuggestions_def
          shop_context detect_never_set defaultContext_def scoredFinding.extend_def scoreSuggestion_def)
  have b: "map category (suggestions (analyzeProjectAdvanced twoSections shopFile ''/shop'' [shopJs] shopPackage))
     = [''business'', ''ai-ux'', ''ai-business'', ''ai-ux'']"
    by (simp add: analyzeProjectAdvanced_def Let_def rankSuggestions_def generateEnhancedSuggestions_def
          shop_context detect_never_set defaultContext_def scoredFinding.extend_def scoreSuggestion_def)
  have c: "\<not> distinct (map category
           (suggestions (analyzeProjectAdvanced twoSections shopFile ''/shop'' [shopJs] shopPackage)))"
    unfolding b by simp
  from a b c show ?thesis by blast
qed

text \<open>
  The improvement areas of \<^verbatim>\<open>IntelligentCodeAnalyzer\<close> have a category and an id each,
  and so have its two fallbacks.
\<close>

lemma concat_filter_nonempty: "concat (filter (\<lambda>arr. 0 < length arr) xss) = concat xss"
  by (induction xss) simp_all

lemma subseq_single: "subseq (if c then [x] else []) [x]"
  by simp

lemma subseq5:
  fixes a :: "string list"
  assumes "subseq a [a']" "subseq b [b']" "subseq c [c']" "subseq d [d']" "subseq e [e']"
  shows "subseq (a @ b @ c @ d @ e) [a', b', c', d', e']"
proof -
  have "subseq (a @ b @ c @ d @ e) ([a'] @ [b'] @ [c'] @ [d'] @ [e'])"
    by (intro list_emb_append_mono assms)
  then show ?thesis by simp
qed

lemma subseq2:
  fixes a :: "string list"
  assumes "subseq a [a']" "subseq b [b']"
  shows "subseq (a @ b) [a', b']"
proof -
  have "subseq (a @ b) ([a'] @ [b'])"
    by (intro list_emb_append_mono assms)
  then show ?thesis by simp
qed

lemma intelligent_areas:
  "subseq (map category
     (analyzeDataStorageImprovements db a pc @ analyzePerformanceImprovements db a pc
      @ analyzeSecurityImprovements db a pc @ analyzeUserExperienceImprovements db a pc
      @ analyzeMonitoringImprovements db a pc))
     [''performance'', ''monitoring'', ''security'', ''ux'', ''analytics'']"
  unfolding map_append
  by (rule subseq5)
     (simp_all add: analyzeDataStorageImprovements_def analyzePerformanceImprovements_def
        analyzeSecurityImprovements_def analyzeUserExperienceImprovements_def
        analyzeMonitoringImprovements_def)

lemma intelligent_area_ids:
  "subseq (map finding_id
     (analyzeDataStorageImprovements db a pc @ analyzePerformanceImprovements db a pc
      @ analyzeSecurityImprovements db a pc @ analyzeUserExperienceImprovements db a pc
      @ analyzeMonitoringImprovements db a pc))
     [''add_caching'', ''add_monitoring'', ''add_validation'', ''improve_error_handling'',
      ''add_analytics'']"
  unfolding map_append
  by (rule subseq5)
     (simp_all add: analyzeDataStorageImprovements_def analyzePerformanceImprovements_def
        analyzeSecurityImprovements_def analyzeUserExperienceImprovements_def
        analyzeMonitoringImprovements_def)

lemma intelligent_fallbacks:
  "subseq (map category (generateFallbackRecommendations db a)) [''maintenance'', ''quality'']"
  "subseq (map finding_id (generateFallbackRecommendations db a))
     [''improve_documentation'', ''add_testing'']"
  unfolding generateFallbackRecommendations_def map_append
  by (rule subseq2; simp)+

lemma intelligent_unsorted:
  "\<exists>found. mset (generateIntelligentRecommendations db a pc) = mset found
     \<and> distinct (map category found) \<and> distinct (map finding_id found)"
proof -
  let ?areas = "analyzeDataStorageImprovements db a pc @ analyzePerformanceImprovements db a pc
      @ analyzeSecurityImprovements db a pc @ analyzeUserExperienceImprovements db a pc
      @ analyzeMonitoringImprovements db a pc"
  let ?found = "if length ?areas = 0 then ?areas @ generateFallbackRecommendations db a
                else ?areas"
  have cc: "concat [a1, a2, a3, a4, a5] = a1 @ a2 @ a3 @ a4 @ a5"
    for a1 a2 a3 a4 a5 :: "intelligentFinding list"
    by simp
  have m: "mset (generateIntelligentRecommendations db a pc) = mset ?found"
    unfolding generateIntelligentRecommendations_def Let_def concat_filter_nonempty cc
    by (rule mset_sort)
  have ac: "distinct (map category ?areas)"
    by (rule subseq_distinct[OF intelligent_areas]) simp
  have ai: "distinct (map finding_id ?areas)"
    by (rule subseq_distinct[OF intelligent_area_ids]) simp
  have fc: "distinct (map category (generateFallbackRecommendations db a))"
    by (rule subseq_distinct[OF intelligent_fallbacks(1)]) simp
  have fi: "distinct (map finding_id (generateFallbackRecommendations db a))"
    by (rule subseq_distinct[OF intelligent_fallbacks(2)]) simp
  have "distinct (map category ?found) \<and> distinct (map finding_id ?found)"
  proof (cases "length ?areas = 0")
    case True
    then have "?found = generateFallbackRecommendations db a" by simp
    with fc fi show ?thesis by (simp only:)
  next
    case False
    then have "?found = ?areas" by (simp only: if_False)
    with ac ai show ?thesis by (simp only:)
  qed
  with m show ?thesis by blast
qed

lemma distinct_intelligent:
  "distinct (map category (suggestions (analyzeCodeIntelligently db rd pp fs)))"
  "distinct (map finding_id (suggestions (analyzeCodeIntelligently db rd pp fs)))"
proof -
  let ?r = "generateIntelligentRecommendations db (performDeepCodeAnalysis rd pp fs)
              (inferProjectContext (performDeepCodeAnalysis rd pp fs))"
  from intelligent_unsorted obtain found where
    m: "mset ?r = mset found" and c: "distinct (map category found)"
    and i: "distinct (map finding_id found)" by blast
  from m have "mset (map category ?r) = mset (map category found)"
    and "mset (map finding_id ?r) = mset (map finding_id found)"
    by (metis mset_map)+
  with c i have "distinct (map category ?r)" "distinct (map finding_id ?r)"
    by (metis mset_eq_imp_distinct_iff)+
  then show "distinct (map category (suggestions (analyzeCodeIntelligently db rd pp fs)))"
    "distinct (map finding_id (suggestions (analyzeCodeIntelligently db rd pp fs)))"
    by (simp_all add: analyzeCodeIntelligently_def Let_def)
qed

text \<open>\<^verbatim>\<open>DeepCodeAnalyzer\<close> returns the one finding of security.\<close>

lemma deep_suggestions:
  "suggestions (performDeepAnalysis db rd pp fs)
     = [createSecurityRecommendation db (readEntireCodebase rd pp fs)]"
  by (simp add: performDeepAnalysis_def Let_def identifyProblems_def
        generateIntelligentRecommendations_deep_def createRecommendationForProblem_def)

text \<open>The suggestions of \<^verbatim>\<open>CodeAnalyzer\<close> have no id; their titles differ.\<close>

lemma subseq6:
  fixes a :: "string list"
  assumes "subseq a [a']" "subseq b [b']" "subseq c [c', d', e']" "subseq f [f']"
  shows "subseq (a @ b @ c @ f) [a', b', c', d', e', f']"
proof -
  have "subseq (a @ b @ c @ f) ([a'] @ [b'] @ [c', d', e'] @ [f'])"
    by (intro list_emb_append_mono assms)
  then show ?thesis by simp
qed

lemma basic_titles:
  "distinct (map title (generateSuggestions p sec))"
proof -
  have "subseq (map title (generateSuggestions p sec))
          [''Lagg till AI-chatbot for kundsupport'', ''Forbattra sokfunktionalitet'',
           ''Personaliserade produktrekommendationer'', ''Implementera avancerad monitorering'',
           ''Automatisk innehallsgenerering'', ''Uppdatera sakerhetsrisker i dependencies'']"
    unfolding generateSuggestions_def map_append
    by (rule subseq6) simp_all
  then show ?thesis by (rule subseq_distinct) simp
qed

lemma title_scoreSuggestion_basic: "title (scoreSuggestion_basic s) = title s"
  by (simp add: scoreSuggestion_basic_def basicSuggestion.extend_def)

lemma basic_ranked_titles:
  "distinct (map title (rankSuggestions_basic (generateSuggestions p sec)))"
proof -
  let ?gen = "generateSuggestions p sec"
  let ?sorted = "sort_key (\<lambda>r. - hourly_score r) (map scoreSuggestion_basic ?gen)"
  have "mset (map title ?sorted) = mset (map title (map scoreSuggestion_basic ?gen))"
    by (simp add: multiset.map_comp)
  also have "map title (map scoreSuggestion_basic ?gen) = map title ?gen"
    by (simp add: title_scoreSuggestion_basic)
  finally have "distinct (map title ?sorted)"
    using basic_titles[of p sec] by (metis mset_eq_imp_distinct_iff)
  then have "distinct (take 10 (map title ?sorted))" by (rule distinct_take)
  then show ?thesis by (simp add: rankSuggestions_basic_def take_map)
qed

lemma basic_run:
  assumes "analyzeProject rd pp fs pkg = Inr r"
  shows "\<exists>p sec. suggestions r = rankSuggestions_basic (generateSuggestions p sec)"
  using assms
  by (auto simp: analyzeProject_def split: sum.splits prod.splits; blast)

text \<open>The page: two findings of \<^verbatim>\<open>IntelligentCodeAnalyzer\<close>.\<close>

lemma page_analysis:
  "performDeepCodeAnalysis pageFile ''/web'' [pageJs]
     = \<lparr> ca_totalLines = 1,
         ca_patterns = map (\<lambda>(n, r).
             (n, if n \<in> set [''api'', ''frontend'', ''spa'', ''file_upload'']
                 then \<lparr> ps_count = 1, density = Num 1000, present = True \<rparr>
                 else \<lparr> ps_count = 0, density = Num 0, present = False \<rparr>)) codePatterns \<rparr>"
  by code_simp

lemma page_findings:
  "map finding_id (suggestions (analyzeCodeIntelligently twoSections pageFile ''/web'' [pageJs]))
     = [''add_validation'', ''improve_error_handling'']"
proof -
  let ?A = "\<lparr> ca_totalLines = 1,
         ca_patterns = map (\<lambda>(n, r).
             (n, if n \<in> set [''api'', ''frontend'', ''spa'', ''file_upload'']
                 then \<lparr> ps_count = 1, density = Num 1000, present = True \<rparr>
                 else \<lparr> ps_count = 0, density = Num 0, present = False \<rparr>)) codePatterns \<rparr>"
  have c: "inferProjectContext ?A
             = \<lparr> pc_type = ''web_application'', pc_purpose = ''service'', pc_audience = ''users'',
                 pc_scale = ''small'', maturity = ''early'', businessModel = ''saas'' \<rparr>"
    by code_simp
  have r: "map finding_id (generateIntelligentRecommendations twoSections ?A
             \<lparr> pc_type = ''web_application'', pc_purpose = ''service'', pc_audience = ''users'',
               pc_scale = ''small'', maturity = ''early'', businessModel = ''saas'' \<rparr>)
           = [''add_validation'', ''improve_error_handling'']"
    by code_simp
  show ?thesis
    unfolding analyzeCodeIntelligently_def Let_def page_analysis c
    by (simp only: analysisResult.simps r)
qed

text \<open>The shop: four findings of the simple \<^verbatim>\<open>EnhancedAnalyzer\<close>.\<close>

lemma shop_findings:
  "map (\<lambda>f. (finding_id f, category f))
     (suggestions (analyzeProjectAdvanced db shopFile ''/shop'' [shopJs] shopPackage))
     = [(''payment-optimization'', ''business''), (''ai-chatbot'', ''ai-ux''),
        (''personalization'', ''ai-business''), (''advanced-search'', ''ai-ux'')]"
  by (simp add: analyzeProjectAdvanced_def Let_def rankSuggestions_def generateEnhancedSuggestions_def
        shop_context detect_never_set defaultContext_def scoredFinding.extend_def scoreSuggestion_def)

lemma map_fst_snd:
  "map (\<lambda>f. (g f, h f)) xs = ys \<Longrightarrow> map g xs = map fst ys \<and> map h xs = map snd ys"
  by (induction xs arbitrary: ys) auto

text \<open>
  Claim C6, amended. In a run of \<^verbatim>\<open>CodeReplacementAnalyzer\<close> and of
  \<^verbatim>\<open>IntelligentCodeAnalyzer\<close> the categories of the findings are pairwise distinct,
  and so are their ids; \<^verbatim>\<open>DeepCodeAnalyzer\<close> returns one finding. In a run of the
  simple \<^verbatim>\<open>EnhancedAnalyzer\<close> and of \<^verbatim>\<open>CodeAnalyzer\<close> a category groups findings and
  several findings may have one category; what is pairwise distinct there is the id for
  \<^verbatim>\<open>EnhancedAnalyzer\<close> and the title for \<^verbatim>\<open>CodeAnalyzer\<close>, whose findings have no id.
\<close>

theorem findings_are_told_apart:
  assumes "analyzeCodeForReplacements db1 rd1 pp1 fs1 = Inr replaced"
      and "analyzeProject rd5 pp5 fs5 pkg5 = Inr basic"
  shows "distinct (map category (suggestions replaced))
       \<and> distinct (map finding_id (suggestions replaced))
       \<and> distinct (map category (suggestions (analyzeCodeIntelligently db2 rd2 pp2 fs2)))
       \<and> distinct (map finding_id (suggestions (analyzeCodeIntelligently db2 rd2 pp2 fs2)))
       \<and> length (suggestions (performDeepAnalysis db3 rd3 pp3 fs3)) = 1
       \<and> distinct (map finding_id (suggestions (analyzeProjectAdvanced db4 rd4 pp4 fs4 pkg4)))
       \<and> distinct (map title (suggestions basic))"
proof -
  from replacement_run[OF assms(1)] obtain opps :: "opportunity list" where
    d: "distinct (map category opps)"
    and r: "list_all2 (\<lambda>s opp. category s = category opp \<and> impact s = impact opp
                          \<and> effort s = effort opp \<and> providers s = recommendations opp
                          \<and> finding_id s = ''replacement_'' @ category opp)
               (suggestions replaced) (sort_key (\<lambda>opp. - (impact opp * 10 - effort opp)) opps)"
    by blast
  let ?sorted = "sort_key (\<lambda>opp. - (impact opp * 10 - effort opp)) opps"
  have c1: "map category (suggestions replaced) = map category ?sorted"
    by (rule list_all2_map_eq[OF r]) simp
  have c2: "map finding_id (suggestions replaced)
              = map (\<lambda>opp. ''replacement_'' @ category opp) ?sorted"
    by (rule list_all2_map_eq[OF r]) simp
  have "mset (map category ?sorted) = mset (map category opps)" by simp
  from mset_eq_imp_distinct_iff[OF this] d have ds: "distinct (map category ?sorted)" by simp
  have "distinct (map (\<lambda>opp. ''replacement_'' @ category opp) ?sorted)"
    by (rule distinct_map_prefix[OF ds])
  then have i: "distinct (map finding_id (suggestions replaced))"
    unfolding c2 .
  have e: "distinct (map finding_id (suggestions (analyzeProjectAdvanced db4 rd4 pp4 fs4 pkg4)))"
    by (simp add: analyzeProjectAdvanced_def Let_def distinct_ids_rankSuggestions)
  from basic_run[OF assms(2)] obtain p sec where
    "suggestions basic = rankSuggestions_basic (generateSuggestions p sec)" by blast
  then have t: "distinct (map title (suggestions basic))"
    by (simp add: basic_ranked_titles)
  have dp: "length (suggestions (performDeepAnalysis db3 rd3 pp3 fs3)) = 1"
    by (simp add: deep_suggestions)
  from c1 ds i distinct_intelligent[of db2 rd2 pp2 fs2] dp e t show ?thesis by simp
qed

theorem findings_are_told_apart_witness:
  "\<not> isl (analyzeCodeForReplacements twoSections oneFile ''/proj'' [appJs])
   \<and> \<not> isl (analyzeProject oneFile ''/proj'' [appRecord] NoPackageJson)
   \<and> distinct (map category
        (suggestions (projr (analyzeCodeForReplacements twoSections oneFile ''/proj'' [appJs]))))
   \<and> length (suggestions (projr (analyzeCodeForReplacements twoSections oneFile ''/proj'' [appJs])))
       = 2
   \<and> distinct (map category
        (suggestions (analyzeCodeIntelligently twoSections pageFile ''/web'' [pageJs])))
   \<and> map finding_id (suggestions (analyzeCodeIntelligently twoSections pageFile ''/web'' [pageJs]))
       = [''add_validation'', ''improve_error_handling'']
   \<and> distinct (map finding_id
        (suggestions (analyzeProjectAdvanced twoSections shopFile ''/shop'' [shopJs] shopPackage)))
   \<and> length (suggestions (analyzeProjectAdvanced twoSections shopFile ''/shop'' [shopJs]
                 shopPackage)) = 4
   \<and> distinct (map title
        (suggestions (projr (analyzeProject oneFile ''/proj'' [appRecord] NoPackageJson))))
   \<and> length (suggestions (projr (analyzeProject oneFile ''/proj'' [appRecord] NoPackageJson)))
       = 5"
proof -
  have r: "\<not> isl (analyzeCodeForReplacements twoSections oneFile ''/proj'' [appJs])"
    by code_simp
  then have r': "analyzeCodeForReplacements twoSections oneFile ''/proj'' [appJs]
               = Inr (projr (analyzeCodeForReplacements twoSections oneFile ''/proj'' [appJs]))"
    by simp
  have rl: "length (suggestions (projr (analyzeCodeForReplacements twoSections oneFile ''/proj''
              [appJs]))) = 2"
    by code_simp
  have b: "\<not> isl (analyzeProject oneFile ''/proj'' [appRecord] NoPackageJson)"
    by code_simp
  then have b': "analyzeProject oneFile ''/proj'' [appRecord] NoPackageJson
               = Inr (projr (analyzeProject oneFile ''/proj'' [appRecord] NoPackageJson))"
    by simp
  have bl: "length (suggestions (projr (analyzeProject oneFile ''/proj'' [appRecord]
              NoPackageJson))) = 5"
    by code_simp
  have sl: "length (suggestions (analyzeProjectAdvanced twoSections shopFile ''/shop'' [shopJs]
                 shopPackage)) = 4"
    using arg_cong[OF shop_findings[of twoSections], of length] by simp
  from findings_are_told_apart
         [OF r' b', of twoSections pageFile "''/web''" "[pageJs]" _ _ _ _
            twoSections shopFile "''/shop''" "[shopJs]" shopPackage]
       r b rl bl sl page_findings
  show ?thesis by blast
qed

section \<open>Theorems: order and length of the ranked list\<close>

text \<open>
  Claim C7. \<^verbatim>\<open>rankSuggestions\<close> of \<^verbatim>\<open>CodeAnalyzer\<close> returns the first ten entries of the
  stable ranking of its argument by falling score. \<^verbatim>\<open>rankSuggestions\<close> of the simple
  \<^verbatim>\<open>EnhancedAnalyzer\<close> returns the stable ranking of what the generator produced, which
  has at most seven entries. The suggestions of \<^verbatim>\<open>CodeReplacementAnalyzer\<close> are by falling
  \<^verbatim>\<open>impact*10 - effort\<close>, suggestions of one key are in the order in which
  \<^verbatim>\<open>findReplacementOpportunities\<close> made them, and there are at most seven. So every list
  returned is sorted, stable and of at most ten entries.
\<close>

theorem ranked_lists_are_sorted_stable_and_short:
  assumes "analyzeCodeForReplacements db readFileSync projectPath allFiles = Inr result"
  shows "(\<exists>ranked. rankedStably hourly_score (map scoreSuggestion_basic bs) ranked
            \<and> rankSuggestions_basic bs = take 10 ranked)
       \<and> length (rankSuggestions_basic bs) \<le> 10
       \<and> rankedStably score (map scoreSuggestion (generateEnhancedSuggestions db patterns bc))
            (rankSuggestions (generateEnhancedSuggestions db patterns bc))
       \<and> length (rankSuggestions (generateEnhancedSuggestions db patterns bc)) \<le> 10
       \<and> (\<exists>opps. findReplacementOpportunities (buildCodePatterns db)
                    (cb_patterns (scanCodebase (buildCodePatterns db) readFileSync projectPath allFiles))
                      = Inr opps
             \<and> mset (map category (suggestions result)) = mset (map category opps)
             \<and> sorted_wrt (\<lambda>a b. impact b * 10 - effort b \<le> impact a * 10 - effort a)
                  (suggestions result)
             \<and> (\<forall>k. map category (filter (\<lambda>s. impact s * 10 - effort s = k) (suggestions result))
                       = map category (filter (\<lambda>opp. impact opp * 10 - effort opp = k) opps)))
       \<and> length (suggestions result) \<le> 10"
proof -
  have b1: "\<exists>ranked. rankedStably hourly_score (map scoreSuggestion_basic bs) ranked
            \<and> rankSuggestions_basic bs = take 10 ranked"
    using rankedStably_sort_key[of hourly_score "map scoreSuggestion_basic bs"]
    by (auto simp: rankSuggestions_basic_def)
  have b2: "length (rankSuggestions_basic bs) \<le> 10"
    by (simp add: rankSuggestions_basic_def)
  have e1: "rankedStably score (map scoreSuggestion (generateEnhancedSuggestions db patterns bc))
            (rankSuggestions (generateEnhancedSuggestions db patterns bc))"
    unfolding rankSuggestions_def by (rule rankedStably_sort_key)
  have e2: "length (rankSuggestions (generateEnhancedSuggestions db patterns bc)) \<le> 10"
    using length_generateEnhancedSuggestions[of db patterns bc] by (simp add: rankSuggestions_def)
  let ?key = "\<lambda>opp::opportunity. impact opp * 10 - effort opp"
  from replacement_run[OF assms] obtain opps where
    o: "findReplacementOpportunities (buildCodePatterns db)
          (cb_patterns (scanCodebase (buildCodePatterns db) readFileSync projectPath allFiles))
            = Inr opps"
    and l: "length opps \<le> 7"
    and r: "list_all2 (\<lambda>s opp. category s = category opp \<and> impact s = impact opp
                          \<and> effort s = effort opp \<and> providers s = recommendations opp
                          \<and> finding_id s = ''replacement_'' @ category opp)
               (suggestions result) (sort_key (\<lambda>opp. - ?key opp) opps)"
    by blast
  let ?sorted = "sort_key (\<lambda>opp. - ?key opp) opps"
  have st: "rankedStably ?key opps ?sorted" by (rule rankedStably_sort_key)
  have c: "map category (suggestions result) = map category ?sorted"
    by (rule list_all2_map_eq[OF r]) simp
  have k: "map (\<lambda>s. impact s * 10 - effort s) (suggestions result) = map ?key ?sorted"
    by (rule list_all2_map_eq[OF r]) simp
  have r1: "mset (map category (suggestions result)) = mset (map category opps)"
    unfolding c by simp
  have "sorted_wrt (\<lambda>a b. b \<le> a) (map ?key ?sorted)"
    using st by (simp add: rankedStably_def sorted_wrt_map)
  then have "sorted_wrt (\<lambda>a b. b \<le> a) (map (\<lambda>s. impact s * 10 - effort s) (suggestions result))"
    unfolding k .
  then have r2: "sorted_wrt (\<lambda>a b. impact b * 10 - effort b \<le> impact a * 10 - effort a)
                  (suggestions result)"
    by (simp add: sorted_wrt_map)
  have r3: "map category (filter (\<lambda>s. impact s * 10 - effort s = k) (suggestions result))
              = map category (filter (\<lambda>opp. ?key opp = k) opps)" for k
  proof -
    have "map category (filter (\<lambda>s. impact s * 10 - effort s = k) (suggestions result))
            = map category (filter (\<lambda>opp. ?key opp = k) ?sorted)"
      by (rule list_all2_filter_map_eq[OF r]) simp
    also have "filter (\<lambda>opp. ?key opp = k) ?sorted = filter (\<lambda>opp. ?key opp = k) opps"
      using st by (simp add: rankedStably_def)
    finally show ?thesis .
  qed
  have "length (suggestions result) = length ?sorted" by (rule list_all2_lengthD[OF r])
  with l have r4: "length (suggestions result) \<le> 10" by simp
  from b1 b2 e1 e2 o r1 r2 r3 r4 show ?thesis by blast
qed

theorem ranked_lists_are_sorted_stable_and_short_witness:
  "\<not> isl (analyzeCodeForReplacements twoSections oneFile ''/proj'' [appJs])
   \<and> sorted_wrt (\<lambda>a b. impact b * 10 - effort b \<le> impact a * 10 - effort a)
        (suggestions (projr (analyzeCodeForReplacements twoSections oneFile ''/proj'' [appJs])))
   \<and> length (suggestions (projr (analyzeCodeForReplacements twoSections oneFile ''/proj'' [appJs])))
        \<le> 10
   \<and> length (rankSuggestions_basic (generateSuggestions noBasicPatterns [])) \<le> 10"
proof -
  have r: "\<not> isl (analyzeCodeForReplacements twoSections oneFile ''/proj'' [appJs])"
    by code_simp
  then have "analyzeCodeForReplacements twoSections oneFile ''/proj'' [appJs]
               = Inr (projr (analyzeCodeForReplacements twoSections oneFile ''/proj'' [appJs]))"
    by simp
  from ranked_lists_are_sorted_stable_and_short
         [OF this, of "generateSuggestions noBasicPatterns []" noPatterns defaultContext] r
  show ?thesis by blast
qed

section \<open>Theorems: the bounds of a finding\<close>

text \<open>The eleven lines of the routes file are eleven issues of unvalidated input.\<close>

lemma length_concat_singletons:
  "(\<And>x. x \<in> set xs \<Longrightarrow> length (f x) = 1) \<Longrightarrow> length (concat (map f xs)) = length xs"
  by (induction xs) simp_all

lemma routes_lines:
  "split_newline (joinWith [newline]
       (replicate 11 ''router.post(route, (req, res) => save(req.body));''))
     = replicate 11 ''router.post(route, (req, res) => save(req.body));''"
  by code_simp

lemma routes_unvalidated:
  "\<not> str_includes (joinWith [newline]
       (replicate 11 ''router.post(route, (req, res) => save(req.body));'')) ''validate''"
  "\<not> str_includes (joinWith [newline]
       (replicate 11 ''router.post(route, (req, res) => save(req.body));'')) ''joi''"
  "\<not> str_includes (joinWith [newline]
       (replicate 11 ''router.post(route, (req, res) => save(req.body));'')) ''yup''"
  by code_simp+

lemma routes_line:
  "str_includes ''router.post(route, (req, res) => save(req.body));'' ''req.body''"
  "\<not> str_includes ''router.post(route, (req, res) => save(req.body));'' ''query''"
  by code_simp+

lemma routes_codebase:
  "readEntireCodebase routesFile ''/api'' [routesJs]
     = \<lparr> dc_totalLines = 11,
         fileContents = [(''/routes.js'', joinWith [newline]
            (replicate 11 ''router.post(route, (req, res) => save(req.body));''))] \<rparr>"
proof -
  have e: "isAnalyzableFile ''.js''" by (simp add: isAnalyzableFile_def)
  have p: "path_join ''/api'' ''/routes.js'' = ''/api/routes.js''"
    by (simp add: path_join_def startsWith_def)
  show ?thesis
    by (simp add: readEntireCodebase_def routesJs_def e p routesFile_def routes_lines)
qed

lemma routes_issues:
  "length (specificIssues (analyzeSecurityInCode (readEntireCodebase routesFile ''/api'' [routesJs])))
     = 11"
proof -
  let ?line = "''router.post(route, (req, res) => save(req.body));''"
  let ?content = "joinWith [newline] (replicate 11 ?line)"
  have one: "length (case x of (index, line) \<Rightarrow> lineIssues ''/routes.js'' ?content index line) = 1"
    if "x \<in> set (enumerate 0 (replicate 11 ?line))" for x
  proof -
    from that have "snd x = ?line" by (auto simp: in_set_enumerate_eq)
    then show ?thesis
      by (cases x) (simp add: lineIssues_def routes_unvalidated routes_line)
  qed
  have "length (concat (map (\<lambda>x. case x of (index, line) \<Rightarrow> lineIssues ''/routes.js'' ?content index line)
                  (enumerate 0 (replicate 11 ?line)))) = length (enumerate 0 (replicate 11 ?line))"
    by (rule length_concat_singletons) (rule one)
  then show ?thesis
    by (simp add: analyzeSecurityInCode_def Let_def routes_codebase routes_lines)
qed

text \<open>
  Claim C5 at a failing input. For a file of eleven lines that pass \<^verbatim>\<open>req.body\<close> on,
  \<^verbatim>\<open>createSecurityRecommendation\<close> of \<^verbatim>\<open>DeepCodeAnalyzer\<close> gives the effort 11, above
  the bound of 10 that it keeps for the impact on the line before (the impact is 10).
  For a catalog with four entries in the section \<^verbatim>\<open>search\<close>, the finding
  \<^verbatim>\<open>advanced-search\<close> of the simple \<^verbatim>\<open>EnhancedAnalyzer\<close> has four providers: its rule
  maps the whole section where the other rules take a slice of at most three.
\<close>

theorem deep_effort_is_not_capped:
  "map effort (suggestions (performDeepAnalysis db routesFile ''/api'' [routesJs])) = [11]
   \<and> map impact (suggestions (performDeepAnalysis db routesFile ''/api'' [routesJs])) = [10]
   \<and> map (\<lambda>f. (finding_id f, length (providers f)))
        (suggestions (analyzeProjectAdvanced fourSearchProviders shopFile ''/shop'' [shopJs]
                        shopPackage))
       = [(''payment-optimization'', 0), (''ai-chatbot'', 0), (''personalization'', 1),
          (''advanced-search'', 4)]"
proof -
  have a: "map effort (suggestions (performDeepAnalysis db routesFile ''/api'' [routesJs])) = [11]"
    by (simp add: deep_suggestions createSecurityRecommendation_def Let_def
          identifySpecificSecurityIssues_def routes_issues)
  have b: "map impact (suggestions (performDeepAnalysis db routesFile ''/api'' [routesJs])) = [10]"
    by (simp add: deep_suggestions createSecurityRecommendation_def Let_def
          identifySpecificSecurityIssues_def routes_issues)
  have c: "map (\<lambda>f. (finding_id f, length (providers f)))
        (suggestions (analyzeProjectAdvanced fourSearchProviders shopFile ''/shop'' [shopJs]
                        shopPackage))
       = [(''payment-optimization'', 0), (''ai-chatbot'', 0), (''personalization'', 1),
          (''advanced-search'', 4)]"
    by (simp add: analyzeProjectAdvanced_def Let_def rankSuggestions_def
          generateEnhancedSuggestions_def shop_context detect_never_set defaultContext_def
          scoredFinding.extend_def scoreSuggestion_def fourSearchProviders_def)
  from a b c show ?thesis by blast
qed

section \<open>Theorems: a file that cannot be read\<close>

lemma app_lines: "length (split_newline ''const x = 1; console.log(x);'') = 1"
  by code_simp

lemma locked_paths:
  "path_join ''/proj'' ''/locked.js'' = ''/proj/locked.js''"
  "path_join ''/proj'' ''/app.js'' = ''/proj/app.js''"
  by (simp_all add: path_join_def startsWith_def)

text \<open>
  Claim C4 at a failing input. In a project whose first code file cannot be read,
  \<^verbatim>\<open>buildCodebaseMap\<close> of \<^verbatim>\<open>AdvancedCodeAnalyzer\<close>, \<^verbatim>\<open>detectAdvancedPatterns\<close> of the
  \<^verbatim>\<open>EnhancedAnalyzer\<close> with ML scoring and \<^verbatim>\<open>analyzeProject\<close> of \<^verbatim>\<open>CodeAnalyzer\<close> end
  with the exception of \<^verbatim>\<open>fs.readFileSync\<close>, and the second file is never read.
  \<^verbatim>\<open>performDeepCodeAnalysis\<close> of \<^verbatim>\<open>IntelligentCodeAnalyzer\<close> and
  \<^verbatim>\<open>readEntireCodebase\<close> of \<^verbatim>\<open>DeepCodeAnalyzer\<close> skip the file and read the second.
\<close>

theorem unreadable_file_aborts_analysis:
  "buildCodebaseMap oneFile ''/proj'' emptyCodebaseMap [lockedJs, appRecord]
     = Inl (ReadError ''/proj/locked.js'')
   \<and> detectAdvancedPatterns_ml oneFile ''/proj'' plainPatterns [lockedJs, appRecord]
     = Inl (ReadError ''/proj/locked.js'')
   \<and> analyzeProject oneFile ''/proj'' [lockedJs, appRecord] NoPackageJson
     = Inl (ReadError ''/proj/locked.js'')
   \<and> ca_totalLines (performDeepCodeAnalysis oneFile ''/proj'' [lockedJs, appRecord]) = 1
   \<and> readEntireCodebase oneFile ''/proj'' [lockedJs, appRecord]
     = \<lparr> dc_totalLines = 1, fileContents = [(''/app.js'', ''const x = 1; console.log(x);'')] \<rparr>"
proof -
  have a: "buildCodebaseMap oneFile ''/proj'' emptyCodebaseMap [lockedJs, appRecord]
     = Inl (ReadError ''/proj/locked.js'')"
    by (simp add: lockedJs_def advanced_isCodeFile_def locked_paths oneFile_def)
  have b: "detectAdvancedPatterns_ml oneFile ''/proj'' plainPatterns [lockedJs, appRecord]
     = Inl (ReadError ''/proj/locked.js'')"
    by (simp add: lockedJs_def locked_paths oneFile_def)
  have c: "analyzeProject oneFile ''/proj'' [lockedJs, appRecord] NoPackageJson
     = Inl (ReadError ''/proj/locked.js'')"
    by (simp add: analyzeProject_def analyzeDependencies_def lockedJs_def locked_paths oneFile_def)
  have d: "ca_totalLines (performDeepCodeAnalysis oneFile ''/proj'' [lockedJs, appRecord]) = 1"
    by (simp add: performDeepCodeAnalysis_def lockedJs_def appRecord_def
          intelligent_isCodeFile_def locked_paths oneFile_def app_lines
          del: split_newline.simps)
  have e: "readEntireCodebase oneFile ''/proj'' [lockedJs, appRecord]
     = \<lparr> dc_totalLines = 1, fileContents = [(''/app.js'', ''const x = 1; console.log(x);'')] \<rparr>"
    by (simp add: readEntireCodebase_def lockedJs_def appRecord_def
          isAnalyzableFile_def locked_paths oneFile_def app_lines
          del: split_newline.simps)
  from a b c d e show ?thesis by blast
qed

section \<open>Theorems: a project without files\<close>













end
